theory Spec2Isabelle
  imports Complex_Main "HOL-Library.AList"
begin

section \<open>The Devo data-science connector: typed query pipeline and random sampler\<close>

text \<open>
  The repository holds two generations of the same client. Class \<open>Reader\<close>
  (\<^verbatim>\<open>devodsconnector/reader.py\<close>) is the packaged module; class \<open>API\<close>
  (\<^verbatim>\<open>api.py\<close>) is the earlier standalone module with the same method names.
  Both are embedded. A definition without prefix follows \<^verbatim>\<open>reader.py\<close>; a
  definition prefixed \<open>api_\<close> follows \<^verbatim>\<open>api.py\<close>. The leading underscore of
  a method name is dropped; \<open>_query\<close>, which would then clash with \<open>query\<close>, is
  \<open>send_query\<close>.

  Python's standard library, pandas, scipy and the Devo SDK are not part of the
  repository. What the code calls from them is collected in the record \<open>pylib\<close>
  and passed to every definition as the parameter \<open>L\<close>, so a theorem stated
  for an arbitrary \<open>L\<close> holds for every behaviour of those libraries; the
  evaluations at the end of the theory use the concrete instance \<open>test_lib\<close>.
\<close>

subsection \<open>Exceptions and values\<close>

text \<open>
  \<^verbatim>\<open>reader.py\<close> raises the plain \<open>Exception\<close> with a message, \<^verbatim>\<open>api.py\<close> uses
  \<open>assert\<close> with a message; the other constructors are the exceptions the
  interpreter and the libraries raise on the paths modelled here.
\<close>

datatype error =
    Exception string
  | AssertionError string
  | ValueError
  | TypeError
  | KeyError string
  | IndexError
  | AttributeError
  | StopIteration
  | RuntimeError
  | ZeroDivisionError
  | UnboundLocalError
  | TransportError

datatype tzinfo = UTC | FixedOffset int | Zone string

record datetime =
  year :: nat
  month :: nat
  day :: nat
  hour :: nat
  minute :: nat
  second :: nat
  microsecond :: nat
  tzinfo :: "tzinfo option"

text \<open>A finite Python float is modelled by the real number it denotes.\<close>

datatype "value" =
    VNone
  | VStr string
  | VInt int
  | VFloat real
  | VBool bool
  | VDatetime datetime

datatype json =
    JNull
  | JBool bool
  | JInt int
  | JFloat real
  | JStr string
  | JArr "json list"
  | JObj "(string \<times> json) list"

subsection \<open>Library functions taken as parameters\<close>

record pylib =
  str_strip :: "string \<Rightarrow> string"
    \<comment> \<open>\<open>str.strip()\<close>\<close>
  strptime :: "string \<Rightarrow> error + datetime"
    \<comment> \<open>\<open>datetime.strptime(s, '%Y-%m-%d %H:%M:%S.%f')\<close>\<close>
  isoformat :: "datetime \<Rightarrow> string"
  timestamp :: "datetime \<Rightarrow> real"
    \<comment> \<open>\<open>datetime.timestamp()\<close> and \<open>pandas.Timestamp.timestamp()\<close>\<close>
  int_of_str :: "string \<Rightarrow> error + int"
    \<comment> \<open>\<open>int(s)\<close>\<close>
  float_of_str :: "string \<Rightarrow> error + real"
    \<comment> \<open>\<open>float(s)\<close>\<close>
  now_timestamp :: "real"
    \<comment> \<open>\<open>datetime.datetime.now().timestamp()\<close>\<close>
  to_datetime_timestamp :: "string \<Rightarrow> error + real"
    \<comment> \<open>\<open>pd.to_datetime(s).timestamp()\<close>\<close>
  fl :: "real \<Rightarrow> real"
    \<comment> \<open>rounding of a real number to the nearest float\<close>
  np_sqrt :: "real \<Rightarrow> real"
    \<comment> \<open>\<open>numpy.sqrt\<close> on a float\<close>
  norm_sf :: "real \<Rightarrow> real \<Rightarrow> real \<Rightarrow> real option"
    \<comment> \<open>\<open>scipy.stats.norm.sf(x, loc, scale)\<close>; \<open>None\<close> when the result is nan\<close>
  json_loads :: "string \<Rightarrow> error + json"
    \<comment> \<open>\<open>json.loads\<close>; \<open>Inl ValueError\<close> when the text is not JSON\<close>
  check_status :: "json \<Rightarrow> error option"
    \<comment> \<open>\<open>error_checking.check_status\<close>: the exception it raises, if any\<close>
  csv_reader :: "string list \<Rightarrow> string list list"
    \<comment> \<open>\<open>csv.reader\<close> over an iterator of lines\<close>
  decode_utf8 :: "string \<Rightarrow> string"
    \<comment> \<open>\<open>bytes.decode('utf-8')\<close>\<close>
  format_float :: "real \<Rightarrow> string"
    \<comment> \<open>\<open>str\<close> of a float inside an f-string\<close>
  namedtuple_ok :: "string list \<Rightarrow> bool"
    \<comment> \<open>whether \<open>namedtuple('Row', cols)\<close> accepts the field names\<close>
  frame_ok :: "string list \<Rightarrow> value list list \<Rightarrow> bool"
    \<comment> \<open>whether \<open>pd.DataFrame(rows, columns=cols)\<close> accepts the rows\<close>
  read_file :: "string \<Rightarrow> error + string"
    \<comment> \<open>\<open>open(path, 'r').read()\<close>\<close>
  sample_positions :: "nat \<Rightarrow> nat \<Rightarrow> nat list"
    \<comment> \<open>the row positions \<open>DataFrame.sample(n)\<close> draws from a frame of \<open>m\<close> rows\<close>

subsection \<open>Column converters and the type map\<close>

type_synonym converter = "string \<Rightarrow> error + value"

definition null_decorator :: "converter \<Rightarrow> converter" where
  "null_decorator f = (\<lambda>v. if v = '''' then Inr VNone else f v)"

definition ts_format_msg :: string where
  "ts_format_msg = ''ts_format must be one of: datetime, iso, or timestamp ''"

definition ts_func :: "pylib \<Rightarrow> string \<Rightarrow> converter" where
  "ts_func L ts_format = (\<lambda>t.
     case strptime L (str_strip L t) of
       Inl e \<Rightarrow> Inl e
     | Inr dt \<Rightarrow>
         if ts_format = ''datetime'' then Inr (VDatetime dt)
         else if ts_format = ''iso'' then Inr (VStr (isoformat L dt))
         else if ts_format = ''timestamp'' then Inr (VFloat (timestamp L dt))
         else Inl (Exception ts_format_msg))"

definition make_ts_func :: "pylib \<Rightarrow> string \<Rightarrow> error + converter" where
  "make_ts_func L ts_format =
     (if ts_format \<notin> set [''datetime'', ''iso'', ''timestamp'']
      then Inl (Exception ts_format_msg)
      else Inr (ts_func L ts_format))"

definition conv_str :: converter where
  "conv_str = (\<lambda>v. Inr (VStr v))"

definition conv_int :: "pylib \<Rightarrow> converter" where
  "conv_int L = (\<lambda>v. case int_of_str L v of Inl e \<Rightarrow> Inl e | Inr i \<Rightarrow> Inr (VInt i))"

definition conv_float :: "pylib \<Rightarrow> converter" where
  "conv_float L = (\<lambda>v. case float_of_str L v of Inl e \<Rightarrow> Inl e | Inr x \<Rightarrow> Inr (VFloat x))"

definition conv_bool :: converter where
  "conv_bool = (\<lambda>b. Inr (VBool (b = ''true'')))"

text \<open>
  A \<open>defaultdict\<close>: the stored entries and the converter its factory returns
  for a key that is not stored.
\<close>

record type_map =
  entries :: "(string \<times> converter) list"
  default_factory :: converter

definition tm_get :: "type_map \<Rightarrow> string \<Rightarrow> converter" where
  "tm_get tm t = (case map_of (entries tm) t of Some f \<Rightarrow> f | None \<Rightarrow> default_factory tm)"

definition funcs :: "pylib \<Rightarrow> converter \<Rightarrow> (string \<times> converter) list" where
  "funcs L ts =
     [(''timestamp'', ts),
      (''str'', conv_str),
      (''int8'', conv_int L),
      (''int4'', conv_int L),
      (''float8'', conv_float L),
      (''float4'', conv_float L),
      (''bool'', conv_bool)]"

definition make_type_map :: "pylib \<Rightarrow> string \<Rightarrow> error + type_map" where
  "make_type_map L ts_format =
     (case make_ts_func L ts_format of
        Inl e \<Rightarrow> Inl e
      | Inr ts \<Rightarrow>
          Inr \<lparr> entries = map (\<lambda>(t, f). (t, null_decorator f)) (funcs L ts),
                default_factory = null_decorator conv_str \<rparr>)"

definition api_ts_func :: "pylib \<Rightarrow> converter" where
  "api_ts_func L = (\<lambda>t.
     case strptime L (str_strip L t) of
       Inl e \<Rightarrow> Inl e
     | Inr dt \<Rightarrow> Inr (VDatetime dt))"

definition api_make_type_map :: "pylib \<Rightarrow> type_map" where
  "api_make_type_map L =
     \<lparr> entries = map (\<lambda>(t, f). (t, null_decorator f)) (funcs L (api_ts_func L)),
       default_factory = conv_str \<rparr>"

definition known_tags :: "string list" where
  "known_tags = [''timestamp'', ''str'', ''int8'', ''int4'', ''float8'', ''float4'', ''bool'']"

subsection \<open>Time normalisation\<close>

text \<open>
  The \<open>date\<close> argument of \<open>_to_unix\<close>: \<open>None\<close>, a string, a
  \<open>datetime.datetime\<close>, a \<open>pandas.Timestamp\<close> (a subclass of \<open>datetime\<close>, so
  \<open>isinstance\<close> accepts it and \<open>type(date) == datetime.datetime\<close> does not), an
  \<open>int\<close>, a \<open>float\<close>, or an object of another type.
\<close>

datatype date_arg =
    DNone
  | DStr string
  | DDatetime datetime
  | DTimestamp datetime
  | DInt int
  | DFloat real
  | DOther

datatype num = NInt int | NFloat real

definition replace_tzinfo :: "datetime \<Rightarrow> tzinfo \<Rightarrow> datetime" where
  "replace_tzinfo d tz = d\<lparr>tzinfo := Some tz\<rparr>"

text \<open>\<open>int(x)\<close> on a float truncates toward zero.\<close>

definition trunc :: "real \<Rightarrow> int" where
  "trunc x = (if 0 \<le> x then \<lfloor>x\<rfloor> else \<lceil>x\<rceil>)"

definition py_int :: "num \<Rightarrow> int" where
  "py_int e = (case e of NInt i \<Rightarrow> i | NFloat x \<Rightarrow> trunc x)"

definition times_1000 :: "pylib \<Rightarrow> num \<Rightarrow> num" where
  "times_1000 L e = (case e of NInt i \<Rightarrow> NInt (i * 1000) | NFloat x \<Rightarrow> NFloat (fl L (x * 1000)))"

definition finish_epoch :: "pylib \<Rightarrow> bool \<Rightarrow> num \<Rightarrow> error + int option" where
  "finish_epoch L milliseconds epoch =
     Inr (Some (py_int (if milliseconds then times_1000 L epoch else epoch)))"

fun to_unix :: "pylib \<Rightarrow> date_arg \<Rightarrow> bool \<Rightarrow> error + int option" where
  "to_unix L DNone milliseconds = Inr None"
| "to_unix L (DStr s) milliseconds =
     (if s = ''now'' then finish_epoch L milliseconds (NFloat (now_timestamp L))
      else case to_datetime_timestamp L s of
             Inl e \<Rightarrow> Inl e
           | Inr x \<Rightarrow> finish_epoch L milliseconds (NFloat x))"
| "to_unix L (DDatetime d) milliseconds =
     finish_epoch L milliseconds (NFloat (timestamp L (replace_tzinfo d UTC)))"
| "to_unix L (DTimestamp d) milliseconds =
     finish_epoch L milliseconds (NFloat (timestamp L (replace_tzinfo d UTC)))"
| "to_unix L (DInt i) milliseconds = finish_epoch L milliseconds (NInt i)"
| "to_unix L (DFloat x) milliseconds = finish_epoch L milliseconds (NFloat x)"
| "to_unix L DOther milliseconds = Inl (Exception ''Invalid Date'')"

text \<open>
  In \<^verbatim>\<open>api.py\<close> the \<open>datetime\<close> branch tests \<open>type(date) == datetime.datetime\<close>
  and the chain has no \<open>else\<close>: for a value no branch takes, \<open>epoch\<close> is never
  bound and reading it raises \<open>UnboundLocalError\<close>.
\<close>

fun api_to_unix :: "pylib \<Rightarrow> date_arg \<Rightarrow> bool \<Rightarrow> error + int option" where
  "api_to_unix L DNone milliseconds = Inr None"
| "api_to_unix L (DStr s) milliseconds =
     (if s = ''now'' then finish_epoch L milliseconds (NFloat (now_timestamp L))
      else case to_datetime_timestamp L s of
             Inl e \<Rightarrow> Inl e
           | Inr x \<Rightarrow> finish_epoch L milliseconds (NFloat x))"
| "api_to_unix L (DDatetime d) milliseconds =
     finish_epoch L milliseconds (NFloat (timestamp L (replace_tzinfo d UTC)))"
| "api_to_unix L (DTimestamp d) milliseconds = Inl UnboundLocalError"
| "api_to_unix L (DInt i) milliseconds = finish_epoch L milliseconds (NInt i)"
| "api_to_unix L (DFloat x) milliseconds = finish_epoch L milliseconds (NFloat x)"
| "api_to_unix L DOther milliseconds = Inl UnboundLocalError"

subsection \<open>The service, requests and the query executor\<close>

record request =
  rq_query :: string
  rq_from :: "int option"
  rq_to :: "int option"
  rq_mode :: string
  rq_stream :: bool
  rq_limit :: "nat option"

text \<open>What \<open>_query\<close> returns: a lazy sequence of byte-lines or a buffered text.\<close>

datatype response = Lines "string list" | Text string

text \<open>
  The state threaded through every call: the requests sent so far, in order,
  and the warnings emitted. The remote service answers a request as a function
  of the requests before it, so two identical requests may be answered
  differently (the service's \<open>rand()\<close> is redrawn on every request).
\<close>

record world =
  sent :: "request list"
  warned :: "string list"

type_synonym client = "request list \<Rightarrow> request \<Rightarrow> error + response"

definition send_query ::
  "pylib \<Rightarrow> client \<Rightarrow> string \<Rightarrow> date_arg \<Rightarrow> date_arg \<Rightarrow> string \<Rightarrow> bool \<Rightarrow> nat option
     \<Rightarrow> world \<Rightarrow> (error + response) \<times> world" where
  "send_query L C linq_query start stop mode stream_flag limit w =
     (case to_unix L start False of
        Inl e \<Rightarrow> (Inl e, w)
      | Inr start' \<Rightarrow>
          (case to_unix L stop False of
             Inl e \<Rightarrow> (Inl e, w)
           | Inr stop' \<Rightarrow>
               let rq = \<lparr> rq_query = linq_query, rq_from = start', rq_to = stop',
                          rq_mode = mode, rq_stream = stream_flag, rq_limit = limit \<rparr>
               in (C (sent w) rq, w\<lparr>sent := sent w @ [rq]\<rparr>)))"

subsection \<open>Schema probe\<close>

definition json_get :: "json \<Rightarrow> string \<Rightarrow> error + json" where
  "json_get j k =
     (case j of
        JObj kvs \<Rightarrow> (case map_of kvs k of None \<Rightarrow> Inl (KeyError k) | Some v \<Rightarrow> Inr v)
      | _ \<Rightarrow> Inl TypeError)"

definition json_items :: "json \<Rightarrow> error + (string \<times> json) list" where
  "json_items j = (case j of JObj kvs \<Rightarrow> Inr kvs | _ \<Rightarrow> Inl AttributeError)"

text \<open>\<open>type_map[v['type']]\<close>: a key that is not a stored string gets the default.\<close>

definition tm_lookup :: "type_map \<Rightarrow> json \<Rightarrow> error + converter" where
  "tm_lookup tm tag =
     (case tag of
        JStr t \<Rightarrow> Inr (tm_get tm t)
      | JArr _ \<Rightarrow> Inl TypeError
      | JObj _ \<Rightarrow> Inl TypeError
      | _ \<Rightarrow> Inr (default_factory tm))"

text \<open>
  The dict comprehension \<open>{c: type_map[v['type']] for c, v in col_data.items()}\<close>;
  a dict keeps one entry per key, at the place of its first insertion.
\<close>

fun type_dict_of ::
  "type_map \<Rightarrow> (string \<times> json) list \<Rightarrow> (string \<times> converter) list
     \<Rightarrow> error + (string \<times> converter) list" where
  "type_dict_of tm [] acc = Inr acc"
| "type_dict_of tm ((c, v) # kvs) acc =
     (case json_get v ''type'' of
        Inl e \<Rightarrow> Inl e
      | Inr tag \<Rightarrow>
          (case tm_lookup tm tag of
             Inl e \<Rightarrow> Inl e
           | Inr f \<Rightarrow> type_dict_of tm kvs (AList.update c f acc)))"

definition col_types :: "type_map \<Rightarrow> json \<Rightarrow> error + (string \<times> converter) list" where
  "col_types tm data =
     (case json_get data ''object'' of
        Inl e \<Rightarrow> Inl e
      | Inr ob \<Rightarrow>
          (case json_get ob ''m'' of
             Inl e \<Rightarrow> Inl e
           | Inr col_data \<Rightarrow>
               (case json_items col_data of
                  Inl e \<Rightarrow> Inl e
                | Inr kvs \<Rightarrow> type_dict_of tm kvs [])))"

definition response_error :: error where
  "response_error = Exception ''API V2 response error''"

definition parse_types :: "pylib \<Rightarrow> type_map \<Rightarrow> response \<Rightarrow> error + (string \<times> converter) list" where
  "parse_types L tm response =
     (case response of
        Lines _ \<Rightarrow> Inl TypeError
      | Text s \<Rightarrow>
          (case json_loads L s of
             Inl e \<Rightarrow> (if e = ValueError then Inl response_error else Inl e)
           | Inr data \<Rightarrow>
               (case check_status L data of
                  Some e \<Rightarrow> (if e = ValueError then Inl response_error else Inl e)
                | None \<Rightarrow> col_types tm data)))"

definition get_types ::
  "pylib \<Rightarrow> client \<Rightarrow> string \<Rightarrow> date_arg \<Rightarrow> string \<Rightarrow> world
     \<Rightarrow> (error + (string \<times> converter) list) \<times> world" where
  "get_types L C linq_query start ts_format w =
     (case make_type_map L ts_format of
        Inl e \<Rightarrow> (Inl e, w)
      | Inr tm \<Rightarrow>
          (case to_unix L start False of
             Inl e \<Rightarrow> (Inl e, w)
           | Inr None \<Rightarrow> (Inl TypeError, w)
           | Inr (Some stop) \<Rightarrow>
               (case send_query L C linq_query (DInt (stop - 1)) (DInt stop)
                       ''json/compact'' False (Some 1) w of
                  (Inl e, w') \<Rightarrow> (Inl e, w')
                | (Inr response, w') \<Rightarrow> (parse_types L tm response, w'))))"

subsection \<open>Streaming decoder\<close>

text \<open>
  The \<open>try\<close> block of \<open>_decode_results\<close>: a \<open>ValueError\<close> from \<open>json.loads\<close>
  or from \<open>check_status\<close> is swallowed, any other exception propagates.
\<close>

definition first_line_error :: "pylib \<Rightarrow> string \<Rightarrow> error option" where
  "first_line_error L first =
     (case json_loads L first of
        Inl e \<Rightarrow> (if e = ValueError then None else Some e)
      | Inr data \<Rightarrow>
          (case check_status L data of
             Some e \<Rightarrow> (if e = ValueError then None else Some e)
           | None \<Rightarrow> None))"

text \<open>
  The decoded lines, as far as the first \<open>next\<close> of the consumer decides them.
  Iterating a buffered text yields its characters, which have no \<open>decode\<close>.
  \<open>next\<close> on an exhausted iterator raises \<open>StopIteration\<close> inside a
  generator; from Python 3.7 on it leaves the generator as \<open>RuntimeError\<close>.
\<close>

definition decode_results :: "pylib \<Rightarrow> response \<Rightarrow> error + string list" where
  "decode_results L r =
     (case r of
        Lines [] \<Rightarrow> Inl RuntimeError
      | Lines (first # rest) \<Rightarrow>
          (case first_line_error L first of
             Some e \<Rightarrow> Inl e
           | None \<Rightarrow> Inr (str_strip L (decode_utf8 L first) # map (decode_utf8 L) rest))
      | Text [] \<Rightarrow> Inl RuntimeError
      | Text (c # cs) \<Rightarrow>
          (case first_line_error L [c] of
             Some e \<Rightarrow> Inl e
           | None \<Rightarrow> Inl AttributeError))"

text \<open>\<open>[t(v) for t, v in zip(type_list, row)]\<close>: the first failing conversion raises.\<close>

fun convert_row :: "converter list \<Rightarrow> string list \<Rightarrow> error + value list" where
  "convert_row (t # ts) (v # vs) =
     (case t v of
        Inl e \<Rightarrow> Inl e
      | Inr x \<Rightarrow> (case convert_row ts vs of Inl e \<Rightarrow> Inl e | Inr xs \<Rightarrow> Inr (x # xs)))"
| "convert_row ts vs = Inr []"

text \<open>\<open>[type_dict[c] for c in cols]\<close> on a plain dict.\<close>

fun type_list_of :: "(string \<times> converter) list \<Rightarrow> string list \<Rightarrow> error + converter list" where
  "type_list_of type_dict [] = Inr []"
| "type_list_of type_dict (c # cs) =
     (case map_of type_dict c of
        None \<Rightarrow> Inl (KeyError c)
      | Some f \<Rightarrow> (case type_list_of type_dict cs of Inl e \<Rightarrow> Inl e | Inr fs \<Rightarrow> Inr (f # fs)))"

text \<open>
  What a generator hands out: its items up to and including the first
  exception; after raising, a generator is exhausted.
\<close>

fun gen :: "(error + 'a) list \<Rightarrow> (error + 'a) list" where
  "gen [] = []"
| "gen (Inl e # xs) = [Inl e]"
| "gen (Inr x # xs) = Inr x # gen xs"

definition duplicate_msg :: string where
  "duplicate_msg = ''Duplicate column names encountered, custom columns must be named''"

text \<open>
  The body of \<open>_stream\<close> after the two requests, run up to its first \<open>yield\<close>:
  the header, and the generator of converted rows that remains.
\<close>

definition stream_decode ::
  "pylib \<Rightarrow> (string \<times> converter) list \<Rightarrow> response
     \<Rightarrow> error + string list \<times> (error + value list) list" where
  "stream_decode L type_dict result =
     (case decode_results L result of
        Inl e \<Rightarrow> Inl e
      | Inr ls \<Rightarrow>
          (case csv_reader L ls of
             [] \<Rightarrow> Inl RuntimeError
           | cols # rows \<Rightarrow>
               if length cols \<noteq> length type_dict then Inl (Exception duplicate_msg)
               else (case type_list_of type_dict cols of
                       Inl e \<Rightarrow> Inl e
                     | Inr type_list \<Rightarrow> Inr (cols, gen (map (convert_row type_list) rows)))))"

definition stream ::
  "pylib \<Rightarrow> client \<Rightarrow> string \<Rightarrow> date_arg \<Rightarrow> date_arg \<Rightarrow> string \<Rightarrow> world
     \<Rightarrow> (error + string list \<times> (error + value list) list) \<times> world" where
  "stream L C linq_query start stop ts_format w =
     (case get_types L C linq_query start ts_format w of
        (Inl e, w1) \<Rightarrow> (Inl e, w1)
      | (Inr type_dict, w1) \<Rightarrow>
          (case send_query L C linq_query start stop ''csv'' True None w1 of
             (Inl e, w2) \<Rightarrow> (Inl e, w2)
           | (Inr result, w2) \<Rightarrow> (stream_decode L type_dict result, w2)))"

subsection \<open>Output projection and \<open>query\<close>\<close>

record dataframe =
  df_columns :: "string list"
  df_index :: "nat list"
  df_rows :: "value list list"

datatype projection =
    OutList "(error + value list) list"
  | OutDict "(error + (string \<times> value) list) list"
  | OutNamedtuple "(error + (string \<times> value) list) list"
  | OutDataframe dataframe

definition to_list :: "(error + value list) list \<Rightarrow> string list \<Rightarrow> (error + value list) list" where
  "to_list results cols = results"

definition dict_of :: "(string \<times> value) list \<Rightarrow> (string \<times> value) list" where
  "dict_of kvs = foldl (\<lambda>d (k, v). AList.update k v d) [] kvs"

definition to_dict ::
  "(error + value list) list \<Rightarrow> string list \<Rightarrow> (error + (string \<times> value) list) list" where
  "to_dict results cols =
     map (\<lambda>r. case r of Inl e \<Rightarrow> Inl e | Inr row \<Rightarrow> Inr (dict_of (zip cols row))) results"

definition to_namedtuple ::
  "pylib \<Rightarrow> (error + value list) list \<Rightarrow> string list \<Rightarrow> (error + (string \<times> value) list) list" where
  "to_namedtuple L results cols =
     (if \<not> namedtuple_ok L cols then [Inl ValueError]
      else gen (map (\<lambda>r. case r of
                           Inl e \<Rightarrow> Inl e
                         | Inr row \<Rightarrow>
                             if length row = length cols then Inr (zip cols row)
                             else Inl TypeError) results))"

text \<open>
  \<open>pd.DataFrame(results, columns=cols)\<close> drains the generator, so an exception
  of a conversion surfaces here. The frame gets the positional index
  \<open>0, ..., m - 1\<close>, and a row shorter than the header is filled up with
  missing values. \<open>fillna(np.nan)\<close> changes no row, column or label; the
  model has one missing value, \<open>VNone\<close>, and does not follow the change of a
  column's dtype that a missing value may cause.
\<close>

fun drain :: "(error + 'a) list \<Rightarrow> error + 'a list" where
  "drain [] = Inr []"
| "drain (Inl e # xs) = Inl e"
| "drain (Inr x # xs) = (case drain xs of Inl e \<Rightarrow> Inl e | Inr ys \<Rightarrow> Inr (x # ys))"

definition pad_row :: "nat \<Rightarrow> value list \<Rightarrow> value list" where
  "pad_row n r = r @ replicate (n - length r) VNone"

definition to_dataframe :: "pylib \<Rightarrow> (error + value list) list \<Rightarrow> string list \<Rightarrow> error + dataframe" where
  "to_dataframe L results cols =
     (case drain results of
        Inl e \<Rightarrow> Inl e
      | Inr rs \<Rightarrow>
          if frame_ok L cols rs
          then Inr \<lparr> df_columns = cols, df_index = [0 ..< length rs],
                     df_rows = map (pad_row (length cols)) rs \<rparr>
          else Inl ValueError)"

definition valid_outputs :: "string list" where
  "valid_outputs = [''dict'', ''list'', ''namedtuple'', ''dataframe'']"

definition project ::
  "pylib \<Rightarrow> string \<Rightarrow> (error + value list) list \<Rightarrow> string list \<Rightarrow> error + projection" where
  "project L out results cols =
     (if out = ''list'' then Inr (OutList (to_list results cols))
      else if out = ''dict'' then Inr (OutDict (to_dict results cols))
      else if out = ''namedtuple'' then Inr (OutNamedtuple (to_namedtuple L results cols))
      else if out = ''dataframe'' then
        (case to_dataframe L results cols of Inl e \<Rightarrow> Inl e | Inr df \<Rightarrow> Inr (OutDataframe df))
      else Inl AttributeError)"

text \<open>The messages of \<open>query\<close> in the two modules, written without their apostrophes.\<close>

definition output_msg :: string where
  "output_msg = ''Output must be one of (dict, list, namedtuple, dataframe)''"

definition api_output_msg :: string where
  "api_output_msg = ''output must be in (dict, list, namedtuple, dataframe)''"

definition continuous_msg :: string where
  "continuous_msg = ''DataFrame can not be build from continuous query''"

definition query ::
  "pylib \<Rightarrow> client \<Rightarrow> string \<Rightarrow> date_arg \<Rightarrow> date_arg \<Rightarrow> string \<Rightarrow> string \<Rightarrow> world
     \<Rightarrow> (error + projection) \<times> world" where
  "query L C linq_query start stop out ts_format w =
     (if out \<notin> set valid_outputs then (Inl (Exception output_msg), w)
      else if out = ''dataframe'' \<and> stop = DNone then (Inl (Exception continuous_msg), w)
      else (case stream L C linq_query start stop ts_format w of
              (Inl e, w') \<Rightarrow> (Inl e, w')
            | (Inr (cols, results), w') \<Rightarrow> (project L out results cols, w')))"

subsection \<open>The pipeline of \<^verbatim>\<open>api.py\<close>\<close>

text \<open>
  \<open>requests.post\<close> returns a response object; \<open>_query\<close> reads either its
  \<open>iter_lines()\<close> or its \<open>text\<close>. The request signature (an HMAC over key,
  body and time) does not influence control flow and is left out of the request.
\<close>

record http_reply =
  iter_lines :: "string list"
  text_body :: string

type_synonym http = "request list \<Rightarrow> request \<Rightarrow> error + http_reply"

definition api_make_request ::
  "pylib \<Rightarrow> http \<Rightarrow> string \<Rightarrow> date_arg \<Rightarrow> date_arg \<Rightarrow> string \<Rightarrow> bool \<Rightarrow> nat option
     \<Rightarrow> world \<Rightarrow> (error + http_reply) \<times> world" where
  "api_make_request L H query_text start stop mode stream_flag limit w =
     (case api_to_unix L start False of
        Inl e \<Rightarrow> (Inl e, w)
      | Inr start' \<Rightarrow>
          (case api_to_unix L stop False of
             Inl e \<Rightarrow> (Inl e, w)
           | Inr stop' \<Rightarrow>
               (case api_to_unix L (DStr ''now'') True of
                  Inl e \<Rightarrow> (Inl e, w)
                | Inr ts \<Rightarrow>
                    let rq = \<lparr> rq_query = query_text, rq_from = start', rq_to = stop',
                               rq_mode = mode, rq_stream = stream_flag, rq_limit = limit \<rparr>
                    in (H (sent w) rq, w\<lparr>sent := sent w @ [rq]\<rparr>))))"

definition endswith :: "string \<Rightarrow> string \<Rightarrow> bool" where
  "endswith s suffix = (length suffix \<le> length s \<and> drop (length s - length suffix) s = suffix)"

definition api_send_query ::
  "pylib \<Rightarrow> http \<Rightarrow> string \<Rightarrow> date_arg \<Rightarrow> date_arg \<Rightarrow> string \<Rightarrow> bool \<Rightarrow> nat option
     \<Rightarrow> world \<Rightarrow> (error + response) \<times> world" where
  "api_send_query L H linq_query start stop mode stream_flag limit w =
     (case (if endswith linq_query ''.linq'' then read_file L linq_query else Inr linq_query) of
        Inl e \<Rightarrow> (Inl e, w)
      | Inr query_text \<Rightarrow>
          let stream_flag' = (if stop = DNone then True else stream_flag) in
          (case api_make_request L H query_text start stop mode stream_flag' limit w of
             (Inl e, w') \<Rightarrow> (Inl e, w')
           | (Inr r, w') \<Rightarrow>
               (if stream_flag' then Inr (Lines (iter_lines r)) else Inr (Text (text_body r)), w')))"

text \<open>Python's \<open>==\<close> between a decoded JSON value and an \<open>int\<close>.\<close>

definition json_eq_int :: "json \<Rightarrow> int \<Rightarrow> bool" where
  "json_eq_int j n =
     (case j of
        JInt i \<Rightarrow> i = n
      | JFloat x \<Rightarrow> x = of_int n
      | JBool b \<Rightarrow> (if b then 1 else 0) = n
      | _ \<Rightarrow> False)"

definition api_parse_types :: "pylib \<Rightarrow> type_map \<Rightarrow> response \<Rightarrow> error + (string \<times> converter) list" where
  "api_parse_types L tm response =
     (case response of
        Lines _ \<Rightarrow> Inl TypeError
      | Text s \<Rightarrow>
          (case json_loads L s of
             Inl e \<Rightarrow> Inl e
           | Inr data \<Rightarrow>
               (case json_get data ''status'' of
                  Inl e \<Rightarrow> Inl e
                | Inr st \<Rightarrow>
                    if \<not> json_eq_int st 0 then Inl (AssertionError ''Query Error'')
                    else col_types tm data)))"

definition api_get_types ::
  "pylib \<Rightarrow> http \<Rightarrow> string \<Rightarrow> date_arg \<Rightarrow> world
     \<Rightarrow> (error + (string \<times> converter) list) \<times> world" where
  "api_get_types L H linq_query start w =
     (case api_to_unix L start False of
        Inl e \<Rightarrow> (Inl e, w)
      | Inr None \<Rightarrow> (Inl TypeError, w)
      | Inr (Some start') \<Rightarrow>
          (case api_send_query L H linq_query (DInt start') (DInt (start' + 1))
                  ''json/compact'' False (Some 1) w of
             (Inl e, w') \<Rightarrow> (Inl e, w')
           | (Inr response, w') \<Rightarrow> (api_parse_types L (api_make_type_map L) response, w')))"

text \<open>
  \<open>query_error = (json.loads(first)['status'] == 500)\<close> under a bare
  \<open>except\<close>: every failure leaves \<open>query_error\<close> at \<open>False\<close>.
\<close>

definition api_query_error :: "pylib \<Rightarrow> string \<Rightarrow> bool" where
  "api_query_error L first =
     (case json_loads L first of
        Inl e \<Rightarrow> False
      | Inr data \<Rightarrow> (case json_get data ''status'' of Inl e \<Rightarrow> False | Inr st \<Rightarrow> json_eq_int st 500))"

definition api_decode_results :: "pylib \<Rightarrow> response \<Rightarrow> error + string list" where
  "api_decode_results L r =
     (case r of
        Lines [] \<Rightarrow> Inl RuntimeError
      | Lines (first # rest) \<Rightarrow>
          if api_query_error L first then Inl (AssertionError ''Query Error'')
          else Inr (decode_utf8 L first # map (decode_utf8 L) rest)
      | Text [] \<Rightarrow> Inl RuntimeError
      | Text (c # cs) \<Rightarrow>
          if api_query_error L [c] then Inl (AssertionError ''Query Error'')
          else Inl AttributeError)"

definition api_stream_decode ::
  "pylib \<Rightarrow> (string \<times> converter) list \<Rightarrow> response
     \<Rightarrow> error + string list \<times> (error + value list) list" where
  "api_stream_decode L type_dict result =
     (case api_decode_results L result of
        Inl e \<Rightarrow> Inl e
      | Inr ls \<Rightarrow>
          (case csv_reader L ls of
             [] \<Rightarrow> Inl RuntimeError
           | cols # rows \<Rightarrow>
               if length cols \<noteq> length type_dict then Inl (AssertionError duplicate_msg)
               else (case type_list_of type_dict cols of
                       Inl e \<Rightarrow> Inl e
                     | Inr type_list \<Rightarrow> Inr (cols, gen (map (convert_row type_list) rows)))))"

definition api_stream ::
  "pylib \<Rightarrow> http \<Rightarrow> string \<Rightarrow> date_arg \<Rightarrow> date_arg \<Rightarrow> world
     \<Rightarrow> (error + string list \<times> (error + value list) list) \<times> world" where
  "api_stream L H linq_query start stop w =
     (case api_get_types L H linq_query start w of
        (Inl e, w1) \<Rightarrow> (Inl e, w1)
      | (Inr type_dict, w1) \<Rightarrow>
          (case api_send_query L H linq_query start stop ''csv'' True None w1 of
             (Inl e, w2) \<Rightarrow> (Inl e, w2)
           | (Inr result, w2) \<Rightarrow> (api_stream_decode L type_dict result, w2)))"

definition api_query ::
  "pylib \<Rightarrow> http \<Rightarrow> string \<Rightarrow> date_arg \<Rightarrow> date_arg \<Rightarrow> string \<Rightarrow> world
     \<Rightarrow> (error + projection) \<times> world" where
  "api_query L H linq_query start stop out w =
     (if out \<notin> set valid_outputs then (Inl (AssertionError api_output_msg), w)
      else if out = ''dataframe'' \<and> stop = DNone then (Inl (AssertionError continuous_msg), w)
      else (case api_stream L H linq_query start stop w of
              (Inl e, w') \<Rightarrow> (Inl e, w')
            | (Inr (cols, results), w') \<Rightarrow> (project L out results cols, w')))"

subsection \<open>Adaptive random sampler\<close>

text \<open>
  Float arithmetic is the exact operation followed by rounding with \<open>fl\<close>;
  an \<open>int\<close> operand is converted to a float first, and the quotient of two
  \<open>int\<close>s is rounded once. \<open>n*p*(1-p)\<close> associates to the left. The square
  root and the survival function are the library's.
\<close>

definition loc_scale :: "pylib \<Rightarrow> real \<Rightarrow> real \<Rightarrow> real \<times> real" where
  "loc_scale L n p =
     (let loc = fl L (fl L n * p);
          scale = np_sqrt L (fl L (fl L (fl L n * p) * fl L (1 - p)))
      in (loc, scale))"

text \<open>The test \<open>norm.sf(x=k - 0.5, loc=loc, scale=scale) > threshold\<close>; a nan compares false.\<close>

definition tail_exceeds :: "pylib \<Rightarrow> real \<Rightarrow> real \<Rightarrow> real \<Rightarrow> real \<Rightarrow> bool" where
  "tail_exceeds L n k threshold p =
     (case norm_sf L (fl L (fl L k - 1 / 2)) (fst (loc_scale L n p)) (snd (loc_scale L n p)) of
        None \<Rightarrow> False
      | Some t \<Rightarrow> t > threshold)"

text \<open>\<open>min(1.001*p, 1)\<close>: Python's \<open>min\<close> keeps its first argument unless the second is smaller.\<close>

definition step_p :: "pylib \<Rightarrow> real \<Rightarrow> real" where
  "step_p L p = (let m = fl L (fl L (1001 / 1000) * p) in if 1 < m then 1 else m)"

partial_function (option) search_p :: "pylib \<Rightarrow> real \<Rightarrow> real \<Rightarrow> real \<Rightarrow> real \<Rightarrow> real option" where
  "search_p L n k threshold p =
     (if tail_exceeds L n k threshold p then Some p
      else search_p L n k threshold (step_p L p))"

declare search_p.simps [code]

definition find_optimal_p :: "pylib \<Rightarrow> real \<Rightarrow> real \<Rightarrow> real \<Rightarrow> real option" where
  "find_optimal_p L n k threshold = search_p L n k threshold (fl L (k / n))"

subsection \<open>Frames: sampling, sorting, re-indexing\<close>

text \<open>
  \<open>df.sample(n)\<close> keeps the rows at the drawn positions, each with its label,
  in the order drawn; pandas rejects a float \<open>n\<close> (with \<open>TypeError\<close> when its
  value is integral, with \<open>ValueError\<close> otherwise), a negative \<open>n\<close> and an
  \<open>n\<close> above the number of rows.
\<close>

definition sample :: "pylib \<Rightarrow> dataframe \<Rightarrow> num \<Rightarrow> error + dataframe" where
  "sample L df n =
     (case n of
        NFloat x \<Rightarrow> (if x = of_int \<lfloor>x\<rfloor> then Inl TypeError else Inl ValueError)
      | NInt i \<Rightarrow>
          if i < 0 \<or> int (length (df_rows df)) < i then Inl ValueError
          else let ps = sample_positions L (length (df_rows df)) (nat i)
               in Inr (df\<lparr> df_index := map (\<lambda>j. df_index df ! j) ps,
                           df_rows := map (\<lambda>j. df_rows df ! j) ps \<rparr>))"

definition sort_index :: "dataframe \<Rightarrow> dataframe" where
  "sort_index df =
     (let ps = sort_key fst (zip (df_index df) (df_rows df))
      in df\<lparr> df_index := map fst ps, df_rows := map snd ps \<rparr>)"

definition reset_index :: "dataframe \<Rightarrow> dataframe" where
  "reset_index df = df\<lparr> df_index := [0 ..< length (df_rows df)] \<rparr>"

subsection \<open>\<open>randomSample\<close>\<close>

definition is_int :: "num \<Rightarrow> bool" where
  "is_int n = (case n of NInt i \<Rightarrow> True | NFloat x \<Rightarrow> False)"

definition num_real :: "num \<Rightarrow> real" where
  "num_real n = (case n of NInt i \<Rightarrow> of_int i | NFloat x \<Rightarrow> x)"

text \<open>The numeric reading of a cell; comparing or dividing with any other cell is a \<open>TypeError\<close>.\<close>

definition number_of :: "value \<Rightarrow> real option" where
  "number_of v =
     (case v of
        VInt i \<Rightarrow> Some (of_int i)
      | VFloat x \<Rightarrow> Some x
      | VBool b \<Rightarrow> Some (if b then 1 else 0)
      | _ \<Rightarrow> None)"

text \<open>\<open>next(r)[0]\<close> on the \<open>list\<close> projection.\<close>

definition first_cell :: "projection \<Rightarrow> error + value" where
  "first_cell r =
     (case r of
        OutList [] \<Rightarrow> Inl StopIteration
      | OutList (Inl e # _) \<Rightarrow> Inl e
      | OutList (Inr [] # _) \<Rightarrow> Inl IndexError
      | OutList (Inr (v # _) # _) \<Rightarrow> Inr v
      | _ \<Rightarrow> Inl TypeError)"

definition the_dataframe :: "(error + projection) \<times> world \<Rightarrow> (error + dataframe) \<times> world" where
  "the_dataframe r =
     (case r of
        (Inl e, w) \<Rightarrow> (Inl e, w)
      | (Inr (OutDataframe df), w) \<Rightarrow> (Inr df, w)
      | (Inr _, w) \<Rightarrow> (Inl AttributeError, w))"

definition size_query :: "string \<Rightarrow> string" where
  "size_query linq_query = linq_query @ '' group select count() as count''"

definition sample_query :: "pylib \<Rightarrow> string \<Rightarrow> real \<Rightarrow> string" where
  "sample_query L linq_query p =
     linq_query @ '' where simplify(float8(rand())) < '' @ format_float L p"

definition sample_size_msg :: string where
  "sample_size_msg = ''Sample size must be a positive int''"

definition warning_msg :: string where
  "warning_msg = ''Sample size greater than or equal to total table size. Returning full table''"

text \<open>
  The \<open>while True\<close> loop of \<open>randomSample\<close>. Nothing bounds the number of
  rounds, so the loop is a partial function: \<open>None\<close> is a run that never
  returns.
\<close>

partial_function (option) sample_loop ::
  "pylib \<Rightarrow> client \<Rightarrow> string \<Rightarrow> date_arg \<Rightarrow> date_arg \<Rightarrow> num \<Rightarrow> world
     \<Rightarrow> ((error + dataframe) \<times> world) option" where
  "sample_loop L C q start stop sample_size w =
     (case the_dataframe (query L C q start stop ''dataframe'' ''datetime'' w) of
        (Inl e, w') \<Rightarrow> Some (Inl e, w')
      | (Inr df, w') \<Rightarrow>
          if num_real sample_size \<le> of_nat (length (df_rows df))
          then (case sample L df sample_size of
                  Inl e \<Rightarrow> Some (Inl e, w')
                | Inr s \<Rightarrow> Some (Inr (reset_index (sort_index s)), w'))
          else sample_loop L C q start stop sample_size w')"

declare sample_loop.simps [code]

definition randomSample ::
  "pylib \<Rightarrow> client \<Rightarrow> string \<Rightarrow> date_arg \<Rightarrow> date_arg \<Rightarrow> num \<Rightarrow> world
     \<Rightarrow> ((error + dataframe) \<times> world) option" where
  "randomSample L C linq_query start stop sample_size w =
     (if num_real sample_size < 1 \<or> \<not> is_int sample_size
      then Some (Inl (Exception sample_size_msg), w)
      else
        (case query L C (size_query linq_query) start stop ''list'' ''datetime'' w of
           (Inl e, w1) \<Rightarrow> Some (Inl e, w1)
         | (Inr r, w1) \<Rightarrow>
             (case first_cell r of
                Inl e \<Rightarrow> Some (Inl e, w1)
              | Inr table_size \<Rightarrow>
                  (case number_of table_size of
                     None \<Rightarrow> Some (Inl TypeError, w1)
                   | Some n \<Rightarrow>
                       if num_real sample_size \<ge> n
                       then Some (the_dataframe
                                    (query L C linq_query start stop ''dataframe'' ''datetime''
                                       (w1\<lparr>warned := warned w1 @ [warning_msg]\<rparr>)))
                       else
                         (case find_optimal_p L n (num_real sample_size) (fl L (99 / 100)) of
                            None \<Rightarrow> None
                          | Some p \<Rightarrow>
                              sample_loop L C (sample_query L linq_query p)
                                start stop sample_size w1)))))"

text \<open>
  \<open>randomSample\<close> of \<^verbatim>\<open>api.py\<close>: no check of \<open>sample_size\<close>, no branch for a
  sample at least as large as the table, \<open>p = sample_size/table_size\<close>, and the
  drawn rows are returned as \<open>df.sample\<close> leaves them.
\<close>

definition api_sample_query :: "pylib \<Rightarrow> string \<Rightarrow> real \<Rightarrow> string" where
  "api_sample_query L linq_query p =
     linq_query @ '' where simplify(float8(rand())) < '' @ format_float L p @ '' ''"

partial_function (option) api_sample_loop ::
  "pylib \<Rightarrow> http \<Rightarrow> string \<Rightarrow> date_arg \<Rightarrow> date_arg \<Rightarrow> num \<Rightarrow> world
     \<Rightarrow> ((error + dataframe) \<times> world) option" where
  "api_sample_loop L H q start stop sample_size w =
     (case the_dataframe (api_query L H q start stop ''dataframe'' w) of
        (Inl e, w') \<Rightarrow> Some (Inl e, w')
      | (Inr df, w') \<Rightarrow>
          if num_real sample_size \<le> of_nat (length (df_rows df))
          then Some (sample L df sample_size, w')
          else api_sample_loop L H q start stop sample_size w')"

declare api_sample_loop.simps [code]

definition api_randomSample ::
  "pylib \<Rightarrow> http \<Rightarrow> string \<Rightarrow> date_arg \<Rightarrow> date_arg \<Rightarrow> num \<Rightarrow> world
     \<Rightarrow> ((error + dataframe) \<times> world) option" where
  "api_randomSample L H linq_query start stop sample_size w =
     (case api_query L H (size_query linq_query) start stop ''list'' w of
        (Inl e, w1) \<Rightarrow> Some (Inl e, w1)
      | (Inr r, w1) \<Rightarrow>
          (case first_cell r of
             Inl e \<Rightarrow> Some (Inl e, w1)
           | Inr table_size \<Rightarrow>
               (case number_of table_size of
                  None \<Rightarrow> Some (Inl TypeError, w1)
                | Some n \<Rightarrow>
                    if n = 0 then Some (Inl ZeroDivisionError, w1)
                    else api_sample_loop L H
                           (api_sample_query L linq_query (fl L (num_real sample_size / n)))
                           start stop sample_size w1)))"

subsection \<open>A concrete library and service for evaluation\<close>

text \<open>
  A small instance of the library and of the remote service, on which the
  definitions above are run: a table \<open>t\<close> with the columns \<open>a\<close> (a string)
  and \<open>b\<close> (an \<open>int8\<close>) and the rows \<open>x,1\<close>, \<open>y,2\<close>, \<open>z,3\<close>. The service
  answers the count query with \<open>cnt\<close>, and a sampling query with one row on
  its first round and with all three rows later.
\<close>

fun fields :: "string \<Rightarrow> string \<Rightarrow> string list" where
  "fields acc [] = [rev acc]"
| "fields acc (c # cs) = (if c = CHR '','' then rev acc # fields [] cs else fields (c # acc) cs)"

definition schema_json :: "(string \<times> string) list \<Rightarrow> json" where
  "schema_json cs =
     JObj [(''status'', JInt 0),
           (''object'', JObj [(''m'', JObj (map (\<lambda>(c, t). (c, JObj [(''type'', JStr t)])) cs))])]"

definition test_lib :: pylib where
  "test_lib =
     \<lparr> str_strip = (\<lambda>s. s),
       strptime = (\<lambda>s. Inl ValueError),
       isoformat = (\<lambda>d. []),
       timestamp = (\<lambda>d. 0),
       int_of_str = (\<lambda>s. if s = ''0'' then Inr 0 else if s = ''1'' then Inr 1
                          else if s = ''2'' then Inr 2 else if s = ''3'' then Inr 3
                          else Inl ValueError),
       float_of_str = (\<lambda>s. Inl ValueError),
       now_timestamp = 0,
       to_datetime_timestamp = (\<lambda>s. Inl ValueError),
       fl = (\<lambda>x. x),
       np_sqrt = (\<lambda>x. x),
       norm_sf = (\<lambda>x loc scale. if scale = 0 then None
                                   else if x + 1 / 2 < loc then Some 1 else Some 0),
       json_loads = (\<lambda>s. if s = ''schema ab'' then Inr (schema_json [(''a'', ''str''), (''b'', ''int8'')])
                          else if s = ''schema abc''
                          then Inr (schema_json [(''a'', ''str''), (''b'', ''int8''), (''c'', ''str'')])
                          else if s = ''schema count'' then Inr (schema_json [(''count'', ''int8'')])
                          else Inl ValueError),
       check_status = (\<lambda>j. None),
       csv_reader = map (fields []),
       decode_utf8 = (\<lambda>s. s),
       format_float = (\<lambda>x. ''p''),
       namedtuple_ok = (\<lambda>cols. True),
       frame_ok = (\<lambda>cols rs. True),
       read_file = (\<lambda>path. Inl (Exception ''no such file'')),
       sample_positions = (\<lambda>m n. rev [m - n ..< m]) \<rparr>"

definition test_body :: "string \<Rightarrow> request list \<Rightarrow> request \<Rightarrow> string list" where
  "test_body cnt hist rq =
     (if rq_mode rq = ''json/compact''
      then (if rq_query rq = size_query ''t'' then [''schema count''] else [''schema ab''])
      else if rq_query rq = size_query ''t'' then [''count'', cnt]
      else if rq_query rq = ''t'' then [''a,b'', ''x,1'', ''y,2'', ''z,3'']
      else if length hist < 4 then [''a,b'', ''y,2'']
      else [''a,b'', ''x,1'', ''y,2'', ''z,3''])"

definition test_client :: "string \<Rightarrow> client" where
  "test_client cnt hist rq =
     (if rq_stream rq then Inr (Lines (test_body cnt hist rq))
      else Inr (Text (concat (test_body cnt hist rq))))"

definition test_http :: "string \<Rightarrow> http" where
  "test_http cnt hist rq =
     Inr \<lparr> iter_lines = test_body cnt hist rq, text_body = concat (test_body cnt hist rq) \<rparr>"

definition w0 :: world where
  "w0 = \<lparr> sent = [], warned = [] \<rparr>"

definition td_ab :: "(string \<times> converter) list" where
  "td_ab = [(''a'', null_decorator conv_str), (''b'', null_decorator (conv_int test_lib))]"

text \<open>
  A service that answers every probe with the text \<open>probe\<close> and every other
  request with the lines \<open>body\<close>, and a service for an empty table.
\<close>

definition fixed_client :: "string \<Rightarrow> string list \<Rightarrow> client" where
  "fixed_client probe body hist rq =
     (if rq_mode rq = ''json/compact'' then Inr (Text probe) else Inr (Lines body))"

definition fixed_http :: "string \<Rightarrow> string list \<Rightarrow> http" where
  "fixed_http probe body hist rq =
     (if rq_mode rq = ''json/compact''
      then Inr \<lparr> iter_lines = [probe], text_body = probe \<rparr>
      else Inr \<lparr> iter_lines = body, text_body = concat body \<rparr>)"

definition empty_client :: client where
  "empty_client hist rq =
     (if rq_mode rq = ''json/compact''
      then (if rq_query rq = size_query ''t'' then Inr (Text ''schema count'')
            else Inr (Text ''schema ab''))
      else if rq_query rq = size_query ''t'' then Inr (Lines [''count'', ''0''])
      else Inr (Lines [''a,b'']))"

definition td_abc :: "(string \<times> converter) list" where
  "td_abc = [(''a'', null_decorator conv_str), (''b'', null_decorator (conv_int test_lib)),
             (''c'', null_decorator conv_str)]"

text \<open>The two requests one pipeline run sends: the probe and the main request.\<close>

definition probe_rq :: "string \<Rightarrow> int \<Rightarrow> int \<Rightarrow> request" where
  "probe_rq q a b =
     \<lparr> rq_query = q, rq_from = Some a, rq_to = Some b, rq_mode = ''json/compact'',
       rq_stream = False, rq_limit = Some 1 \<rparr>"

definition csv_rq :: "string \<Rightarrow> int \<Rightarrow> int \<Rightarrow> request" where
  "csv_rq q a b =
     \<lparr> rq_query = q, rq_from = Some a, rq_to = Some b, rq_mode = ''csv'',
       rq_stream = True, rq_limit = None \<rparr>"

section \<open>Properties\<close>

lemmas lib_simps =
  test_lib_def test_body_def test_client_def test_http_def w0_def schema_json_def size_query_def

lemmas probe_simps =
  get_types_def make_type_map_def make_ts_func_def send_query_def finish_epoch_def py_int_def
  parse_types_def col_types_def json_get_def json_items_def tm_lookup_def tm_get_def funcs_def

lemmas decode_simps =
  stream_def stream_decode_def decode_results_def first_line_error_def
  null_decorator_def conv_str_def conv_int_def

lemmas query_simps =
  query_def valid_outputs_def project_def to_list_def to_dataframe_def pad_row_def

subsection \<open>Converters and the empty string\<close>

lemma make_type_map_entries:
  "make_type_map L ts_format = Inr tm \<Longrightarrow>
     \<exists>ts. entries tm = map (\<lambda>(t, f). (t, null_decorator f)) (funcs L ts)
        \<and> default_factory tm = null_decorator conv_str"
  by (auto simp: make_type_map_def split: sum.splits)

lemma tm_get_decorated:
  "entries tm = map (\<lambda>(t, f). (t, null_decorator f)) fs \<Longrightarrow>
   default_factory tm = null_decorator g \<Longrightarrow> tm_get tm t [] = Inr VNone"
  unfolding tm_get_def
  by (induction fs arbitrary: tm)
     (auto simp: null_decorator_def split: option.splits dest!: map_of_SomeD)

text \<open>
  In \<^verbatim>\<open>reader.py\<close> every converter the type map hands out, for a known tag and
  for an unknown one, sends the empty string to \<open>None\<close>; an unknown tag gets
  the string converter and no error.
\<close>

lemma reader_converters_null:
  "make_type_map L ts_format = Inr tm \<Longrightarrow> tm_get tm t [] = Inr VNone"
  using make_type_map_entries tm_get_decorated by blast

lemma reader_unknown_tag:
  "make_type_map L ts_format = Inr tm \<Longrightarrow> t \<notin> set known_tags \<Longrightarrow>
     tm_get tm t v = (if v = [] then Inr VNone else Inr (VStr v))"
  by (auto simp: make_type_map_def tm_get_def funcs_def known_tags_def null_decorator_def
        conv_str_def split: sum.splits)

lemma api_known_tags_null:
  "t \<in> set known_tags \<Longrightarrow> tm_get (api_make_type_map L) t [] = Inr VNone"
  by (auto simp: api_make_type_map_def tm_get_def funcs_def known_tags_def null_decorator_def)

text \<open>
  Claim C4. Every converter of the type map, and the default converter chosen
  for an unknown type tag, should send the empty string to the null value.
  The type map of \<^verbatim>\<open>api.py\<close> does not: its default factory is the bare \<open>str\<close>,
  not the null-decorated one, so for the unknown tag \<open>ip4\<close> the empty
  string is converted to the empty string.
\<close>

theorem api_unknown_tag_keeps_empty_string:
  "tm_get (api_make_type_map L) ''ip4'' [] = Inr (VStr [])"
  by (simp add: api_make_type_map_def tm_get_def funcs_def conv_str_def)

subsection \<open>Time normalisation\<close>

text \<open>
  In \<^verbatim>\<open>reader.py\<close> a \<open>datetime\<close> and a \<open>pandas.Timestamp\<close> lose their time zone:
  the result is the truncated epoch of the same wall-clock fields read as UTC,
  whatever \<open>tzinfo\<close> the value carried; \<open>None\<close> stays \<open>None\<close>.
\<close>

lemma to_unix_datetime:
  "to_unix L (DDatetime d) False = Inr (Some (trunc (timestamp L (d\<lparr>tzinfo := Some UTC\<rparr>))))"
  "to_unix L (DTimestamp d) False = Inr (Some (trunc (timestamp L (d\<lparr>tzinfo := Some UTC\<rparr>))))"
  "to_unix L DNone ms = Inr None"
  by (simp_all add: finish_epoch_def py_int_def replace_tzinfo_def)

lemma to_unix_ignores_tz:
  "to_unix L (DDatetime (d\<lparr>tzinfo := tz\<rparr>)) ms = to_unix L (DDatetime (d\<lparr>tzinfo := tz'\<rparr>)) ms"
  "to_unix L (DTimestamp (d\<lparr>tzinfo := tz\<rparr>)) ms = to_unix L (DTimestamp (d\<lparr>tzinfo := tz'\<rparr>)) ms"
  by (simp_all add: replace_tzinfo_def)

lemma api_to_unix_datetime:
  "api_to_unix L (DDatetime d) False = Inr (Some (trunc (timestamp L (d\<lparr>tzinfo := Some UTC\<rparr>))))"
  "api_to_unix L DNone ms = Inr None"
  by (simp_all add: finish_epoch_def py_int_def replace_tzinfo_def)

text \<open>
  Claim C10. For every \<open>datetime\<close> and every \<open>pandas.Timestamp\<close> the function
  \<open>_to_unix\<close> should return the truncated epoch of the wall-clock fields read
  as UTC. In \<^verbatim>\<open>api.py\<close> a \<open>pandas.Timestamp\<close> passes none of the type tests, the
  chain has no \<open>else\<close>, and the call ends in \<open>UnboundLocalError\<close>.
\<close>

theorem api_to_unix_timestamp_unbound:
  "api_to_unix L (DTimestamp d) milliseconds = Inl UnboundLocalError"
  by simp

subsection \<open>Validation in \<open>query\<close>\<close>

text \<open>
  Claim C6. An output shape outside \<open>dict\<close>, \<open>list\<close>, \<open>namedtuple\<close>,
  \<open>dataframe\<close> is rejected, and so is the \<open>dataframe\<close> shape together with
  \<open>stop = None\<close>; in both cases the world comes back unchanged, so no request
  has been sent. This holds for \<open>query\<close> of both modules.
\<close>

theorem query_rejects_before_any_request:
  "(out \<notin> set valid_outputs \<longrightarrow>
      query L C q start stop out ts_format w = (Inl (Exception output_msg), w) \<and>
      api_query L H q start stop out w = (Inl (AssertionError api_output_msg), w)) \<and>
   query L C q start DNone ''dataframe'' ts_format w = (Inl (Exception continuous_msg), w) \<and>
   api_query L H q start DNone ''dataframe'' w = (Inl (AssertionError continuous_msg), w)"
  by (simp add: query_def api_query_def valid_outputs_def)

theorem query_rejects_before_any_request_witness:
  "''xml'' \<notin> set valid_outputs \<and>
   query test_lib (test_client ''3'') ''t'' (DInt 100) (DInt 200) ''xml'' ''datetime'' w0
     = (Inl (Exception output_msg), w0) \<and>
   api_query test_lib (test_http ''3'') ''t'' (DInt 100) (DInt 200) ''xml'' w0
     = (Inl (AssertionError api_output_msg), w0) \<and>
   sent w0 = []"
  using query_rejects_before_any_request
          [of "''xml''" test_lib "test_client ''3''" "''t''" "DInt 100" "DInt 200"
              "''datetime''" w0 "test_http ''3''"]
  by (simp add: valid_outputs_def w0_def)

subsection \<open>Rows of the streaming decoder\<close>

lemma convert_row_length:
  "convert_row ts vs = Inr xs \<Longrightarrow> length xs = min (length ts) (length vs)"
  by (induction ts vs arbitrary: xs rule: convert_row.induct) (auto split: sum.splits)

lemma convert_row_error:
  "convert_row ts vs = Inl e \<Longrightarrow> \<exists>(t, v) \<in> set (zip ts vs). t v = Inl e"
  by (induction ts vs rule: convert_row.induct) (auto split: sum.splits)

lemma type_list_of_length:
  "type_list_of type_dict cols = Inr fs \<Longrightarrow> length fs = length cols"
  by (induction cols arbitrary: fs) (auto split: option.splits sum.splits)

lemma stream_decode_rows:
  "stream_decode L type_dict result = Inr (cols, results) \<Longrightarrow>
     \<exists>ls rws type_list. decode_results L result = Inr ls \<and> csv_reader L ls = cols # rws
       \<and> type_list_of type_dict cols = Inr type_list
       \<and> length type_list = length cols \<and> results = gen (map (convert_row type_list) rws)"
  by (auto simp: stream_decode_def dest: type_list_of_length
        split: sum.splits list.splits if_splits)

lemma api_stream_decode_rows:
  "api_stream_decode L type_dict result = Inr (cols, results) \<Longrightarrow>
     \<exists>ls rws type_list. api_decode_results L result = Inr ls \<and> csv_reader L ls = cols # rws
       \<and> type_list_of type_dict cols = Inr type_list
       \<and> length type_list = length cols \<and> results = gen (map (convert_row type_list) rws)"
  by (auto simp: api_stream_decode_def dest: type_list_of_length
        split: sum.splits list.splits if_splits)

lemma convert_row_total:
  "\<forall>(t, v) \<in> set (zip ts vs). \<exists>x. t v = Inr x \<Longrightarrow> \<exists>xs. convert_row ts vs = Inr xs"
  by (induction ts vs rule: convert_row.induct) (auto split: sum.splits)

lemma convert_row_nth:
  "convert_row ts vs = Inr xs \<Longrightarrow> i < length xs \<Longrightarrow> (ts ! i) (vs ! i) = Inr (xs ! i)"
proof (induction ts vs arbitrary: xs i rule: convert_row.induct)
  case (1 t ts v vs)
  then show ?case by (cases i) (auto split: sum.splits)
qed simp_all

text \<open>
  Claim C9. Once the header \<open>cols\<close> has passed the count check and its
  converters \<open>type_list\<close> have been looked up, the decoder of either module
  yields the header and then the data lines \<open>rws\<close> converted one by one. A
  converted row has \<open>min (length cols) (length row)\<close> cells, the \<open>i\<close>-th one
  converted from the \<open>i\<close>-th field, so surplus fields are dropped and missing
  ones left out. A line whose zipped fields all convert is converted whatever
  its number of fields, and a line fails only when one of the converters
  applied to one of its fields fails.
\<close>

theorem row_length_is_min:
  assumes "csv_reader L ls = cols # rws"
    and "length cols = length type_dict"
    and "type_list_of type_dict cols = Inr type_list"
  shows "(decode_results L result = Inr ls \<longrightarrow>
            stream_decode L type_dict result
              = Inr (cols, gen (map (convert_row type_list) rws)))
       \<and> (api_decode_results L result = Inr ls \<longrightarrow>
            api_stream_decode L type_dict result
              = Inr (cols, gen (map (convert_row type_list) rws)))
       \<and> length type_list = length cols
       \<and> (\<forall>row vs. convert_row type_list row = Inr vs
              \<longrightarrow> length vs = min (length cols) (length row)
                  \<and> (\<forall>i < length vs. (type_list ! i) (row ! i) = Inr (vs ! i)))
       \<and> (\<forall>row. (\<forall>(t, v) \<in> set (zip type_list row). \<exists>x. t v = Inr x)
              \<longrightarrow> (\<exists>vs. convert_row type_list row = Inr vs))
       \<and> (\<forall>row e. convert_row type_list row = Inl e
              \<longrightarrow> (\<exists>(t, v) \<in> set (zip type_list row). t v = Inl e))"
proof -
  have l: "length type_list = length cols" using assms(3) by (rule type_list_of_length)
  have a: "decode_results L result = Inr ls \<longrightarrow>
            stream_decode L type_dict result = Inr (cols, gen (map (convert_row type_list) rws))"
    using assms by (simp add: stream_decode_def)
  have b: "api_decode_results L result = Inr ls \<longrightarrow>
            api_stream_decode L type_dict result = Inr (cols, gen (map (convert_row type_list) rws))"
    using assms by (simp add: api_stream_decode_def)
  have c: "\<forall>row vs. convert_row type_list row = Inr vs
              \<longrightarrow> length vs = min (length cols) (length row)
                  \<and> (\<forall>i < length vs. (type_list ! i) (row ! i) = Inr (vs ! i))"
    using convert_row_length convert_row_nth l by fastforce
  have d: "\<forall>row. (\<forall>(t, v) \<in> set (zip type_list row). \<exists>x. t v = Inr x)
              \<longrightarrow> (\<exists>vs. convert_row type_list row = Inr vs)"
    using convert_row_total by blast
  have e: "\<forall>row e. convert_row type_list row = Inl e
              \<longrightarrow> (\<exists>(t, v) \<in> set (zip type_list row). t v = Inl e)"
    using convert_row_error by blast
  from a b l c d e show ?thesis by blast
qed

lemma ragged_input:
  "csv_reader test_lib [''a,b'', ''x,1,extra'', ''y'']
     = [''a'', ''b''] # [[''x'', ''1'', ''extra''], [''y'']]"
  "length [''a'', ''b''] = length td_ab"
  "type_list_of td_ab [''a'', ''b'']
     = Inr [null_decorator conv_str, null_decorator (conv_int test_lib)]"
  "decode_results test_lib (Lines [''a,b'', ''x,1,extra'', ''y''])
     = Inr [''a,b'', ''x,1,extra'', ''y'']"
  "api_decode_results test_lib (Lines [''a,b'', ''x,1,extra'', ''y''])
     = Inr [''a,b'', ''x,1,extra'', ''y'']"
  by (simp_all add: td_ab_def lib_simps decode_results_def first_line_error_def
        api_decode_results_def api_query_error_def)

lemma ragged_converted:
  "gen (map (convert_row [null_decorator conv_str, null_decorator (conv_int test_lib)])
          [[''x'', ''1'', ''extra''], [''y'']])
     = [Inr [VStr ''x'', VInt 1], Inr [VStr ''y'']]"
  by (simp add: null_decorator_def conv_str_def conv_int_def test_lib_def)

theorem row_length_is_min_witness:
  "stream_decode test_lib td_ab (Lines [''a,b'', ''x,1,extra'', ''y''])
     = Inr ([''a'', ''b''], [Inr [VStr ''x'', VInt 1], Inr [VStr ''y'']])
   \<and> api_stream_decode test_lib td_ab (Lines [''a,b'', ''x,1,extra'', ''y''])
     = Inr ([''a'', ''b''], [Inr [VStr ''x'', VInt 1], Inr [VStr ''y'']])
   \<and> length [VStr ''x'', VInt 1] = min (length [''a'', ''b'']) (length [''x'', ''1'', ''extra''])
   \<and> length [VStr ''y''] = min (length [''a'', ''b'']) (length [''y''])"
  using row_length_is_min [OF ragged_input(1,2,3),
          of "Lines [''a,b'', ''x,1,extra'', ''y'']"]
        ragged_input(4,5) ragged_converted
  by simp

subsection \<open>Continuous queries\<close>

lemma get_types_sent:
  "get_types L C q start ts_format w = (r, w1) \<Longrightarrow>
     sent w1 = sent w \<or> (\<exists>rq. sent w1 = sent w @ [rq] \<and> rq_to rq \<noteq> None)"
  by (auto simp: get_types_def send_query_def finish_epoch_def Let_def
        split: sum.splits option.splits prod.splits)

lemma stream_continuous_requests:
  "stream L C q start stop ts_format w = (res, w') \<Longrightarrow>
     \<forall>rq \<in> set (drop (length (sent w)) (sent w')). rq_to rq = None \<longrightarrow> rq_stream rq"
  unfolding stream_def
  apply (cases "get_types L C q start ts_format w")
  apply (frule get_types_sent)
  apply (auto simp: send_query_def Let_def split: sum.splits prod.splits)
  done

text \<open>
  \<open>_query\<close> of \<^verbatim>\<open>api.py\<close> overrides the flag for \<open>stop = None\<close>: whatever flag the
  caller passes, the request is sent with the stream flag set and the line
  iterator is returned. In \<^verbatim>\<open>reader.py\<close> the one caller that passes an open
  \<open>stop\<close> on, \<open>_stream\<close>, passes \<open>stream = True\<close> itself.
\<close>

lemma api_continuous_query_forces_streaming:
  "api_send_query L H q start DNone mode stream_flag limit w
     = api_send_query L H q start DNone mode True limit w"
  "api_send_query L H q start DNone mode stream_flag limit w = (Inr r, w')
     \<Longrightarrow> \<exists>ls rq. r = Lines ls \<and> sent w' = sent w @ [rq] \<and> rq_stream rq \<and> rq_to rq = None"
  by (auto simp: api_send_query_def api_make_request_def Let_def split: sum.splits prod.splits)

lemma api_continuous_run:
  "api_send_query test_lib (test_http ''3'') ''t'' (DInt 100) DNone ''csv'' False None w0
     = (Inr (Lines [''a,b'', ''x,1'', ''y,2'', ''z,3'']),
        \<lparr> sent = [\<lparr> rq_query = ''t'', rq_from = Some 100, rq_to = None, rq_mode = ''csv'',
                    rq_stream = True, rq_limit = None \<rparr>],
          warned = [] \<rparr>)"
  by (simp add: api_send_query_def api_make_request_def endswith_def finish_epoch_def py_int_def
        times_1000_def lib_simps)

lemma reader_continuous_run:
  "sent (snd (stream test_lib (test_client ''3'') ''t'' (DInt 100) DNone ''datetime'' w0))
     = [\<lparr> rq_query = ''t'', rq_from = Some 99, rq_to = Some 100, rq_mode = ''json/compact'',
           rq_stream = False, rq_limit = Some 1 \<rparr>,
        \<lparr> rq_query = ''t'', rq_from = Some 100, rq_to = None, rq_mode = ''csv'',
           rq_stream = True, rq_limit = None \<rparr>]"
  by (simp add: lib_simps probe_simps decode_simps)

text \<open>
  Claim C8. A query with \<open>stop = None\<close> should be executed in streaming mode
  and return the line sequence whatever streaming flag the caller passes.
  \<open>_query\<close> of \<^verbatim>\<open>reader.py\<close> does not override the flag: called with
  \<open>stop = None\<close> and \<open>stream = False\<close> it sets the client's stream flag to
  \<open>False\<close>, sends the open-ended request with that flag, and returns what the
  client answers to it.
\<close>

theorem reader_query_keeps_caller_flag:
  "send_query L C q (DInt a) DNone mode False limit w
     = (C (sent w) \<lparr> rq_query = q, rq_from = Some a, rq_to = None, rq_mode = mode,
                     rq_stream = False, rq_limit = limit \<rparr>,
        w\<lparr> sent := sent w @ [\<lparr> rq_query = q, rq_from = Some a, rq_to = None, rq_mode = mode,
                                 rq_stream = False, rq_limit = limit \<rparr>] \<rparr>)"
  by (simp add: send_query_def finish_epoch_def py_int_def Let_def)

text \<open>
  On the concrete service, which answers a request without the stream flag
  with a buffered text, the call returns that text and no line sequence.
\<close>

lemma reader_buffered_run:
  "send_query test_lib (test_client ''3'') ''t'' (DInt 100) DNone ''csv'' False None w0
     = (Inr (Text ''a,bx,1y,2z,3''),
        \<lparr> sent = [\<lparr> rq_query = ''t'', rq_from = Some 100, rq_to = None, rq_mode = ''csv'',
                    rq_stream = False, rq_limit = None \<rparr>],
          warned = [] \<rparr>)"
  by (simp add: send_query_def finish_epoch_def py_int_def lib_simps)

subsection \<open>The schema-mismatch check\<close>

lemma type_list_of_find:
  "type_list_of type_dict cols =
     (case find (\<lambda>c. c \<notin> fst ` set type_dict) cols of
        Some c \<Rightarrow> Inl (KeyError c)
      | None \<Rightarrow> Inr (map (\<lambda>c. the (map_of type_dict c)) cols))"
proof (induction cols)
  case Nil
  show ?case by simp
next
  case (Cons c cs)
  show ?case
  proof (cases "map_of type_dict c")
    case None
    then have "c \<notin> fst ` set type_dict" by (simp add: map_of_eq_None_iff)
    with None show ?thesis by simp
  next
    case (Some f)
    then have "c \<in> fst ` set type_dict" by (metis map_of_eq_None_iff option.distinct(1))
    with Some Cons show ?thesis by (simp split: option.splits)
  qed
qed

lemma find_none_subset: "find (\<lambda>c. c \<notin> A) cols = None \<longleftrightarrow> set cols \<subseteq> A"
  by (auto simp: find_None_iff)

text \<open>
  Claim C5, amended. Once the first line has been accepted and the header
  \<open>cols\<close> read, the decoder of either module raises the schema-mismatch error
  if and only if the number of header columns differs from the number of schema
  entries. When the counts are equal it raises no such error: if every header
  name is a key of the schema it yields the header followed by the data lines
  converted with the schema's converters taken in header order, and otherwise
  it raises \<open>KeyError\<close> for the first header name that is not a key, before the
  header is yielded.
\<close>

theorem schema_mismatch_iff_count_differs:
  assumes "csv_reader L ls = cols # rws"
  shows "(decode_results L result = Inr ls \<longrightarrow>
            (stream_decode L type_dict result = Inl (Exception duplicate_msg)
               \<longleftrightarrow> length cols \<noteq> length type_dict)
          \<and> (length cols = length type_dict \<and> set cols \<subseteq> fst ` set type_dict \<longrightarrow>
               stream_decode L type_dict result
                 = Inr (cols, gen (map (convert_row (map (\<lambda>c. the (map_of type_dict c)) cols))
                                    rws)))
          \<and> (\<forall>c. length cols = length type_dict
                   \<and> find (\<lambda>c. c \<notin> fst ` set type_dict) cols = Some c \<longrightarrow>
               stream_decode L type_dict result = Inl (KeyError c)))
       \<and> (api_decode_results L result = Inr ls \<longrightarrow>
            (api_stream_decode L type_dict result = Inl (AssertionError duplicate_msg)
               \<longleftrightarrow> length cols \<noteq> length type_dict)
          \<and> (length cols = length type_dict \<and> set cols \<subseteq> fst ` set type_dict \<longrightarrow>
               api_stream_decode L type_dict result
                 = Inr (cols, gen (map (convert_row (map (\<lambda>c. the (map_of type_dict c)) cols))
                                    rws)))
          \<and> (\<forall>c. length cols = length type_dict
                   \<and> find (\<lambda>c. c \<notin> fst ` set type_dict) cols = Some c \<longrightarrow>
               api_stream_decode L type_dict result = Inl (KeyError c)))"
proof -
  have ok: "set cols \<subseteq> fst ` set type_dict \<Longrightarrow>
              type_list_of type_dict cols = Inr (map (\<lambda>c. the (map_of type_dict c)) cols)"
    using find_none_subset [of "fst ` set type_dict" cols] by (simp add: type_list_of_find)
  have ko: "\<And>c. find (\<lambda>c. c \<notin> fst ` set type_dict) cols = Some c \<Longrightarrow>
              type_list_of type_dict cols = Inl (KeyError c)"
    by (simp add: type_list_of_find)
  have ke: "\<And>e. type_list_of type_dict cols = Inl e \<Longrightarrow> \<exists>c. e = KeyError c"
    by (auto simp: type_list_of_find split: option.splits)
  have r: "decode_results L result = Inr ls \<Longrightarrow>
             stream_decode L type_dict result =
               (if length cols \<noteq> length type_dict then Inl (Exception duplicate_msg)
                else case type_list_of type_dict cols of
                       Inl e \<Rightarrow> Inl e
                     | Inr type_list \<Rightarrow> Inr (cols, gen (map (convert_row type_list) rws)))"
    using assms by (simp add: stream_decode_def)
  have a: "api_decode_results L result = Inr ls \<Longrightarrow>
             api_stream_decode L type_dict result =
               (if length cols \<noteq> length type_dict then Inl (AssertionError duplicate_msg)
                else case type_list_of type_dict cols of
                       Inl e \<Rightarrow> Inl e
                     | Inr type_list \<Rightarrow> Inr (cols, gen (map (convert_row type_list) rws)))"
    using assms by (simp add: api_stream_decode_def)
  show ?thesis
  proof (intro conjI impI allI)
    assume d: "decode_results L result = Inr ls"
    show "(stream_decode L type_dict result = Inl (Exception duplicate_msg))
            = (length cols \<noteq> length type_dict)"
      using r [OF d] ke by (auto split: sum.splits)
  next
    assume d: "decode_results L result = Inr ls"
      and h: "length cols = length type_dict \<and> set cols \<subseteq> fst ` set type_dict"
    show "stream_decode L type_dict result
            = Inr (cols, gen (map (convert_row (map (\<lambda>c. the (map_of type_dict c)) cols)) rws))"
      using r [OF d] h ok by simp
  next
    fix c
    assume d: "decode_results L result = Inr ls"
      and h: "length cols = length type_dict
              \<and> find (\<lambda>c. c \<notin> fst ` set type_dict) cols = Some c"
    show "stream_decode L type_dict result = Inl (KeyError c)"
      using r [OF d] h ko by simp
  next
    assume d: "api_decode_results L result = Inr ls"
    show "(api_stream_decode L type_dict result = Inl (AssertionError duplicate_msg))
            = (length cols \<noteq> length type_dict)"
      using a [OF d] ke by (auto split: sum.splits)
  next
    assume d: "api_decode_results L result = Inr ls"
      and h: "length cols = length type_dict \<and> set cols \<subseteq> fst ` set type_dict"
    show "api_stream_decode L type_dict result
            = Inr (cols, gen (map (convert_row (map (\<lambda>c. the (map_of type_dict c)) cols)) rws))"
      using a [OF d] h ok by simp
  next
    fix c
    assume d: "api_decode_results L result = Inr ls"
      and h: "length cols = length type_dict
              \<and> find (\<lambda>c. c \<notin> fst ` set type_dict) cols = Some c"
    show "api_stream_decode L type_dict result = Inl (KeyError c)"
      using a [OF d] h ko by simp
  qed
qed


lemma decode_ab:
  "csv_reader test_lib [''a,b'', ''x,1''] = [''a'', ''b''] # [[''x'', ''1'']]"
  "decode_results test_lib (Lines [''a,b'', ''x,1'']) = Inr [''a,b'', ''x,1'']"
  "api_decode_results test_lib (Lines [''a,b'', ''x,1'']) = Inr [''a,b'', ''x,1'']"
  by (simp_all add: lib_simps decode_results_def first_line_error_def api_decode_results_def
        api_query_error_def)

lemma decode_ac:
  "csv_reader test_lib [''a,c'', ''x,1''] = [''a'', ''c''] # [[''x'', ''1'']]"
  "decode_results test_lib (Lines [''a,c'', ''x,1'']) = Inr [''a,c'', ''x,1'']"
  "api_decode_results test_lib (Lines [''a,c'', ''x,1'']) = Inr [''a,c'', ''x,1'']"
  by (simp_all add: lib_simps decode_results_def first_line_error_def api_decode_results_def
        api_query_error_def)

theorem schema_mismatch_iff_count_differs_witness:
  "length [''a'', ''b''] = length td_ab \<and> set [''a'', ''b''] \<subseteq> fst ` set td_ab
   \<and> stream_decode test_lib td_ab (Lines [''a,b'', ''x,1''])
       = Inr ([''a'', ''b''], [Inr [VStr ''x'', VInt 1]])
   \<and> api_stream_decode test_lib td_ab (Lines [''a,b'', ''x,1''])
       = Inr ([''a'', ''b''], [Inr [VStr ''x'', VInt 1]])
   \<and> length [''a'', ''b''] \<noteq> length td_abc
   \<and> stream_decode test_lib td_abc (Lines [''a,b'', ''x,1'']) = Inl (Exception duplicate_msg)
   \<and> api_stream_decode test_lib td_abc (Lines [''a,b'', ''x,1''])
       = Inl (AssertionError duplicate_msg)
   \<and> length [''a'', ''c''] = length td_ab
   \<and> find (\<lambda>c. c \<notin> fst ` set td_ab) [''a'', ''c''] = Some ''c''
   \<and> stream_decode test_lib td_ab (Lines [''a,c'', ''x,1'']) = Inl (KeyError ''c'')
   \<and> api_stream_decode test_lib td_ab (Lines [''a,c'', ''x,1'']) = Inl (KeyError ''c'')"
proof -
  have s: "length [''a'', ''b''] = length td_ab \<and> set [''a'', ''b''] \<subseteq> fst ` set td_ab"
    by (simp add: td_ab_def)
  have m: "length [''a'', ''b''] \<noteq> length td_abc" by (simp add: td_abc_def)
  have k: "length [''a'', ''c''] = length td_ab
           \<and> find (\<lambda>c. c \<notin> fst ` set td_ab) [''a'', ''c''] = Some ''c''"
    by (simp add: td_ab_def)
  have g: "gen (map (convert_row (map (\<lambda>c. the (map_of td_ab c)) [''a'', ''b''])) [[''x'', ''1'']])
             = [Inr [VStr ''x'', VInt 1]]"
    by (simp add: td_ab_def null_decorator_def conv_str_def conv_int_def test_lib_def)
  note ab = schema_mismatch_iff_count_differs
              [OF decode_ab(1), of "Lines [''a,b'', ''x,1'']" td_ab]
  note abc = schema_mismatch_iff_count_differs
              [OF decode_ab(1), of "Lines [''a,b'', ''x,1'']" td_abc]
  note ac = schema_mismatch_iff_count_differs
              [OF decode_ac(1), of "Lines [''a,c'', ''x,1'']" td_ab]
  have 1: "stream_decode test_lib td_ab (Lines [''a,b'', ''x,1''])
             = Inr ([''a'', ''b''], [Inr [VStr ''x'', VInt 1]])"
    using ab decode_ab(2) s g by simp
  have 2: "api_stream_decode test_lib td_ab (Lines [''a,b'', ''x,1''])
             = Inr ([''a'', ''b''], [Inr [VStr ''x'', VInt 1]])"
    using ab decode_ab(3) s g by simp
  have 3: "stream_decode test_lib td_abc (Lines [''a,b'', ''x,1'']) = Inl (Exception duplicate_msg)"
    using abc decode_ab(2) m by simp
  have 4: "api_stream_decode test_lib td_abc (Lines [''a,b'', ''x,1''])
             = Inl (AssertionError duplicate_msg)"
    using abc decode_ab(3) m by simp
  have 5: "stream_decode test_lib td_ab (Lines [''a,c'', ''x,1'']) = Inl (KeyError ''c'')"
    using ac decode_ac(2) k by blast
  have 6: "api_stream_decode test_lib td_ab (Lines [''a,c'', ''x,1'']) = Inl (KeyError ''c'')"
    using ac decode_ac(3) k by blast
  from s m k 1 2 3 4 5 6 show ?thesis by blast
qed

text \<open>
  As it was stated, the claim fails when the counts are equal and a header
  name is not a key of the schema: the probe names the columns \<open>a\<close> and
  \<open>b\<close>, the header reads \<open>a,c\<close>, both have two entries, and the decoder
  raises \<open>KeyError\<close> before it yields the header.
\<close>

theorem equal_counts_unknown_header_name_counterexample:
  "map_sum id length
     (fst (get_types test_lib (fixed_client ''schema ab'' [''a,c'', ''x,1''])
             ''t'' (DInt 100) ''datetime'' w0)) = Inr 2
   \<and> map length (take 1 (csv_reader test_lib [''a,c'', ''x,1''])) = [2]
   \<and> fst (stream test_lib (fixed_client ''schema ab'' [''a,c'', ''x,1''])
             ''t'' (DInt 100) (DInt 200) ''datetime'' w0) = Inl (KeyError ''c'')"
  by (simp add: lib_simps probe_simps decode_simps fixed_client_def)

subsection \<open>Validation of the sample size\<close>

lemmas api_simps = api_query_def api_stream_def api_get_types_def api_send_query_def
  api_make_request_def api_parse_types_def api_make_type_map_def json_eq_int_def
  api_stream_decode_def api_decode_results_def api_query_error_def endswith_def times_1000_def
  col_types_def json_get_def json_items_def tm_lookup_def tm_get_def funcs_def
  finish_epoch_def py_int_def null_decorator_def conv_str_def conv_int_def
  valid_outputs_def project_def to_list_def to_dataframe_def pad_row_def

lemmas rq_simps = probe_rq_def csv_rq_def

text \<open>
  \<open>randomSample\<close> of \<^verbatim>\<open>reader.py\<close> rejects a sample size below \<open>1\<close> and a sample
  size that is not an \<open>int\<close>, and hands the world back untouched.
\<close>

lemma randomSample_validates:
  "num_real k < 1 \<or> \<not> is_int k \<Longrightarrow>
     randomSample L C q start stop k w = Some (Inl (Exception sample_size_msg), w)"
  by (simp add: randomSample_def)

lemma api_count_run:
  "api_query test_lib (test_http ''3'') (size_query ''t'') (DInt 100) (DInt 200) ''list'' w0
     = (Inr (OutList [Inr [VInt 3]]),
        \<lparr> sent = [probe_rq (size_query ''t'') 100 101, csv_rq (size_query ''t'') 100 200],
          warned = [] \<rparr>)"
  by (simp add: lib_simps api_simps rq_simps)

lemma api_first_round:
  "api_query test_lib (test_http ''3'') (api_sample_query test_lib ''t'' p) (DInt 100) (DInt 200)
       ''dataframe''
       \<lparr> sent = [probe_rq (size_query ''t'') 100 101, csv_rq (size_query ''t'') 100 200],
         warned = [] \<rparr>
     = (Inr (OutDataframe \<lparr> df_columns = [''a'', ''b''], df_index = [0],
                            df_rows = [[VStr ''y'', VInt 2]] \<rparr>),
        \<lparr> sent = [probe_rq (size_query ''t'') 100 101, csv_rq (size_query ''t'') 100 200,
                   probe_rq (api_sample_query test_lib ''t'' p) 100 101,
                   csv_rq (api_sample_query test_lib ''t'' p) 100 200],
          warned = [] \<rparr>)"
  by (simp add: lib_simps api_simps rq_simps api_sample_query_def)

lemma api_second_round:
  "api_query test_lib (test_http ''3'') (api_sample_query test_lib ''t'' p) (DInt 100) (DInt 200)
       ''dataframe''
       \<lparr> sent = [probe_rq (size_query ''t'') 100 101, csv_rq (size_query ''t'') 100 200,
                  probe_rq (api_sample_query test_lib ''t'' p) 100 101,
                  csv_rq (api_sample_query test_lib ''t'' p) 100 200],
         warned = [] \<rparr>
     = (Inr (OutDataframe \<lparr> df_columns = [''a'', ''b''], df_index = [0, 1, 2],
                            df_rows = [[VStr ''x'', VInt 1], [VStr ''y'', VInt 2],
                                       [VStr ''z'', VInt 3]] \<rparr>),
        \<lparr> sent = [probe_rq (size_query ''t'') 100 101, csv_rq (size_query ''t'') 100 200,
                   probe_rq (api_sample_query test_lib ''t'' p) 100 101,
                   csv_rq (api_sample_query test_lib ''t'' p) 100 200,
                   probe_rq (api_sample_query test_lib ''t'' p) 100 101,
                   csv_rq (api_sample_query test_lib ''t'' p) 100 200],
          warned = [] \<rparr>)"
  by (simp add: lib_simps api_simps rq_simps api_sample_query_def upt_rec)

lemma test_lib_positions: "sample_positions test_lib m n = rev [m - n ..< m]"
  by (simp add: test_lib_def)

text \<open>
  Claim C7. A call of \<open>randomSample\<close> with a non-positive or non-integer
  sample size should fail with a validation error before any request is sent.
  \<open>randomSample\<close> of \<^verbatim>\<open>api.py\<close> has no such check: with sample size \<open>0\<close> on
  the three-row table it sends four requests (probe and count, probe and
  sampling query) and returns an empty frame without any error.
\<close>

theorem api_randomSample_accepts_zero:
  "api_randomSample test_lib (test_http ''3'') ''t'' (DInt 100) (DInt 200) (NInt 0) w0
     = Some (Inr \<lparr> df_columns = [''a'', ''b''], df_index = [], df_rows = [] \<rparr>,
             \<lparr> sent = [probe_rq (size_query ''t'') 100 101, csv_rq (size_query ''t'') 100 200,
                        probe_rq (api_sample_query test_lib ''t'' 0) 100 101,
                        csv_rq (api_sample_query test_lib ''t'' 0) 100 200],
               warned = [] \<rparr>)"
  unfolding api_randomSample_def api_count_run
  apply (simp add: first_cell_def number_of_def num_real_def)
  apply (subst api_sample_loop.simps)
  apply (simp add: test_lib_def)
  apply (simp add: test_lib_def[symmetric] api_first_round the_dataframe_def num_real_def sample_def)
  apply (simp add: test_lib_def)
  done

subsection \<open>A sample at least as large as the population\<close>

lemma send_query_warned:
  "send_query L C q start stop mode sf limit w = (r, w') \<Longrightarrow> warned w' = warned w"
  by (auto simp: send_query_def Let_def split: sum.splits)

lemma get_types_warned:
  "get_types L C q start ts_format w = (r, w') \<Longrightarrow> warned w' = warned w"
  by (auto simp: get_types_def split: sum.splits option.splits prod.splits dest: send_query_warned)

lemma stream_warned:
  "stream L C q start stop ts_format w = (r, w') \<Longrightarrow> warned w' = warned w"
  by (auto simp: stream_def split: sum.splits prod.splits)
     (metis send_query_warned get_types_warned)+

lemma query_warned:
  "query L C q start stop out ts_format w = (r, w') \<Longrightarrow> warned w' = warned w"
  by (auto simp: query_def split: sum.splits prod.splits if_splits dest: stream_warned)

text \<open>
  \<open>randomSample\<close> of \<^verbatim>\<open>reader.py\<close>: when the sample size is a positive integer
  and the count query yields a population no larger than it, the call emits
  one warning and then returns exactly what \<open>query\<close> with the \<open>dataframe\<close>
  shape returns on the unfiltered query, the full table when that query
  succeeds.
\<close>

lemma full_table_when_sample_covers_population:
  assumes "1 \<le> k"
    and "query L C (size_query q) start stop ''list'' ''datetime'' w = (Inr r, w1)"
    and "first_cell r = Inr table_size"
    and "number_of table_size = Some n"
    and "n \<le> of_int k"
  shows "randomSample L C q start stop (NInt k) w
           = Some (the_dataframe (query L C q start stop ''dataframe'' ''datetime''
                                    (w1\<lparr>warned := warned w @ [warning_msg]\<rparr>)))
         \<and> (\<forall>df w3. query L C q start stop ''dataframe'' ''datetime''
                        (w1\<lparr>warned := warned w @ [warning_msg]\<rparr>) = (Inr (OutDataframe df), w3)
               \<longrightarrow> randomSample L C q start stop (NInt k) w = Some (Inr df, w3)
                   \<and> warned w3 = warned w @ [warning_msg])"
proof -
  have ww: "warned w1 = warned w" using assms(2) query_warned by blast
  have a: "randomSample L C q start stop (NInt k) w
           = Some (the_dataframe (query L C q start stop ''dataframe'' ''datetime''
                                    (w1\<lparr>warned := warned w @ [warning_msg]\<rparr>)))"
    using assms ww by (simp add: randomSample_def num_real_def is_int_def)
  show ?thesis
  proof (intro conjI allI impI)
    show "randomSample L C q start stop (NInt k) w
           = Some (the_dataframe (query L C q start stop ''dataframe'' ''datetime''
                                    (w1\<lparr>warned := warned w @ [warning_msg]\<rparr>)))" by (rule a)
  next
    fix df w3
    assume q: "query L C q start stop ''dataframe'' ''datetime''
                  (w1\<lparr>warned := warned w @ [warning_msg]\<rparr>) = (Inr (OutDataframe df), w3)"
    then show "randomSample L C q start stop (NInt k) w = Some (Inr df, w3)"
      using a by (simp add: the_dataframe_def)
    show "warned w3 = warned w @ [warning_msg]"
      using query_warned [OF q] by simp
  qed
qed

lemma reader_count_run:
  "query test_lib (test_client ''3'') (size_query ''t'') (DInt 100) (DInt 200) ''list'' ''datetime'' w0
     = (Inr (OutList [Inr [VInt 3]]),
        \<lparr> sent = [probe_rq (size_query ''t'') 99 100, csv_rq (size_query ''t'') 100 200],
          warned = [] \<rparr>)"
  by (simp add: lib_simps probe_simps decode_simps query_simps rq_simps)

lemma reader_full_run:
  "query test_lib (test_client ''3'') ''t'' (DInt 100) (DInt 200) ''dataframe'' ''datetime''
       \<lparr> sent = [probe_rq (size_query ''t'') 99 100, csv_rq (size_query ''t'') 100 200],
         warned = [warning_msg] \<rparr>
     = (Inr (OutDataframe \<lparr> df_columns = [''a'', ''b''], df_index = [0, 1, 2],
                            df_rows = [[VStr ''x'', VInt 1], [VStr ''y'', VInt 2],
                                       [VStr ''z'', VInt 3]] \<rparr>),
        \<lparr> sent = [probe_rq (size_query ''t'') 99 100, csv_rq (size_query ''t'') 100 200,
                   probe_rq ''t'' 99 100, csv_rq ''t'' 100 200],
          warned = [warning_msg] \<rparr>)"
  by (simp add: lib_simps probe_simps decode_simps query_simps rq_simps upt_rec)

lemma reader_full_table_run:
  "(1::int) \<le> 3
   \<and> first_cell (OutList [Inr [VInt 3]]) = Inr (VInt 3)
   \<and> number_of (VInt 3) = Some 3
   \<and> randomSample test_lib (test_client ''3'') ''t'' (DInt 100) (DInt 200) (NInt 3) w0
       = Some (Inr \<lparr> df_columns = [''a'', ''b''], df_index = [0, 1, 2],
                      df_rows = [[VStr ''x'', VInt 1], [VStr ''y'', VInt 2],
                                 [VStr ''z'', VInt 3]] \<rparr>,
               \<lparr> sent = [probe_rq (size_query ''t'') 99 100, csv_rq (size_query ''t'') 100 200,
                          probe_rq ''t'' 99 100, csv_rq ''t'' 100 200],
                 warned = [warning_msg] \<rparr>)"
proof -
  have f: "first_cell (OutList [Inr [VInt 3]]) = Inr (VInt 3)" by (simp add: first_cell_def)
  have n: "number_of (VInt 3) = Some 3" by (simp add: number_of_def)
  have k: "(1::int) \<le> 3" by simp
  have le: "(3::real) \<le> of_int 3" by simp
  from full_table_when_sample_covers_population [OF k reader_count_run f n le]
  show ?thesis using f n reader_full_run by (simp add: w0_def the_dataframe_def)
qed

lemma test_lib_fl: "fl test_lib x = x"
  by (simp add: test_lib_def)

lemma api_loop_whole_table:
  "api_sample_loop test_lib (test_http ''3'') (api_sample_query test_lib ''t'' p)
        (DInt 100) (DInt 200) (NInt 3)
        \<lparr> sent = [probe_rq (size_query ''t'') 100 101, csv_rq (size_query ''t'') 100 200],
          warned = [] \<rparr>
     = Some (Inr \<lparr> df_columns = [''a'', ''b''], df_index = [2, 1, 0],
                    df_rows = [[VStr ''z'', VInt 3], [VStr ''y'', VInt 2],
                               [VStr ''x'', VInt 1]] \<rparr>,
             \<lparr> sent = [probe_rq (size_query ''t'') 100 101, csv_rq (size_query ''t'') 100 200,
                        probe_rq (api_sample_query test_lib ''t'' p) 100 101,
                        csv_rq (api_sample_query test_lib ''t'' p) 100 200,
                        probe_rq (api_sample_query test_lib ''t'' p) 100 101,
                        csv_rq (api_sample_query test_lib ''t'' p) 100 200],
               warned = [] \<rparr>)"
  apply (subst api_sample_loop.simps)
  apply (simp add: api_first_round the_dataframe_def num_real_def)
  apply (subst api_sample_loop.simps)
  apply (simp add: api_second_round the_dataframe_def num_real_def sample_def test_lib_positions
           upt_rec)
  done

text \<open>
  Claim C2. A call with a sample size at least as large as the population
  should emit a warning and return the full, unsampled table.
  \<open>randomSample\<close> of \<^verbatim>\<open>api.py\<close> has no such branch: asked for three rows of the
  three-row table it emits no warning, runs the sampling query with \<open>p = 1\<close>
  until a round brings three rows, and returns what \<open>df.sample(3)\<close> draws
  from them, the rows in the order drawn under their drawn labels.
\<close>

theorem api_randomSample_without_warning:
  "api_randomSample test_lib (test_http ''3'') ''t'' (DInt 100) (DInt 200) (NInt 3) w0
     = Some (Inr \<lparr> df_columns = [''a'', ''b''], df_index = [2, 1, 0],
                    df_rows = [[VStr ''z'', VInt 3], [VStr ''y'', VInt 2],
                               [VStr ''x'', VInt 1]] \<rparr>,
             \<lparr> sent = [probe_rq (size_query ''t'') 100 101, csv_rq (size_query ''t'') 100 200,
                        probe_rq (api_sample_query test_lib ''t'' 1) 100 101,
                        csv_rq (api_sample_query test_lib ''t'' 1) 100 200,
                        probe_rq (api_sample_query test_lib ''t'' 1) 100 101,
                        csv_rq (api_sample_query test_lib ''t'' 1) 100 200],
               warned = [] \<rparr>)"
  unfolding api_randomSample_def api_count_run
  by (simp add: first_cell_def number_of_def num_real_def test_lib_fl api_loop_whole_table)

subsection \<open>The sample that is returned\<close>

lemma api_loop_two_rounds:
  "map_option fst
     (api_sample_loop test_lib (test_http ''3'') (api_sample_query test_lib ''t'' p)
        (DInt 100) (DInt 200) (NInt 2)
        \<lparr> sent = [probe_rq (size_query ''t'') 100 101, csv_rq (size_query ''t'') 100 200],
          warned = [] \<rparr>)
     = Some (Inr \<lparr> df_columns = [''a'', ''b''], df_index = [2, 1],
                    df_rows = [[VStr ''z'', VInt 3], [VStr ''y'', VInt 2]] \<rparr>)"
  apply (subst api_sample_loop.simps)
  apply (simp add: api_first_round the_dataframe_def num_real_def)
  apply (subst api_sample_loop.simps)
  apply (simp add: api_second_round the_dataframe_def num_real_def sample_def test_lib_positions
           upt_rec)
  done

text \<open>
  Claim C3. The table returned for a sample size below the population should
  hold exactly that many rows, in the original row order and with the
  positional index reset. \<open>randomSample\<close> of \<^verbatim>\<open>api.py\<close> returns \<open>df.sample(n)\<close> as
  it is: asked for two of the three rows, with the positions \<open>2, 1\<close> drawn, it
  returns the rows \<open>z\<close>, \<open>y\<close> in the order drawn under the labels \<open>2, 1\<close>.
\<close>

theorem api_randomSample_keeps_drawn_order:
  "map_option fst
     (api_randomSample test_lib (test_http ''3'') ''t'' (DInt 100) (DInt 200) (NInt 2) w0)
     = Some (Inr \<lparr> df_columns = [''a'', ''b''], df_index = [2, 1],
                    df_rows = [[VStr ''z'', VInt 3], [VStr ''y'', VInt 2]] \<rparr>)"
  unfolding api_randomSample_def api_count_run
  by (simp add: first_cell_def number_of_def api_loop_two_rounds)

text \<open>
  \<open>randomSample\<close> of \<^verbatim>\<open>reader.py\<close>: when a call with a sample size below the
  population returns a table, that table has exactly as many rows as asked
  for, they are rows of the last, over-shot frame at strictly increasing
  positions (the original order), and the index is \<open>0, ..., k - 1\<close>. The
  assumption on \<open>sample_positions\<close> is what \<open>DataFrame.sample\<close> without
  replacement provides: \<open>k\<close> distinct positions inside the frame.
\<close>

lemma sample_loop_returns_aux:
  assumes "sample_loop L C q start stop sample_size w = Some y"
  shows "\<forall>out w'. y = (Inr out, w') \<longrightarrow>
           (\<exists>df w1 smp.
              the_dataframe (query L C q start stop ''dataframe'' ''datetime'' w1) = (Inr df, w')
              \<and> num_real sample_size \<le> real (length (df_rows df))
              \<and> sample L df sample_size = Inr smp
              \<and> out = reset_index (sort_index smp))"
  using assms
  apply (rule sample_loop.raw_induct [rotated 1])
  apply (auto split: prod.splits sum.splits if_splits)
  done

lemma sample_loop_returns:
  "sample_loop L C q start stop sample_size w = Some (Inr out, w') \<Longrightarrow>
     \<exists>df w1 smp.
       the_dataframe (query L C q start stop ''dataframe'' ''datetime'' w1) = (Inr df, w')
       \<and> num_real sample_size \<le> real (length (df_rows df))
       \<and> sample L df sample_size = Inr smp
       \<and> out = reset_index (sort_index smp)"
  using sample_loop_returns_aux by blast

lemma zip_same_map: "zip xs (map f xs) = map (\<lambda>x. (x, f x)) xs"
  by (induction xs) auto

lemma insort_key_map: "insort_key f (g x) (map g ys) = map g (insort_key (\<lambda>a. f (g a)) x ys)"
  by (induction ys) auto

lemma sort_key_map: "sort_key f (map g xs) = map g (sort_key (\<lambda>a. f (g a)) xs)"
  by (induction xs) (auto simp: insort_key_map)

lemma query_dataframe_index:
  "the_dataframe (query L C q start stop ''dataframe'' ts_format w) = (Inr df, w') \<Longrightarrow>
     df_index df = [0 ..< length (df_rows df)]"
  by (auto simp: the_dataframe_def query_def project_def to_dataframe_def valid_outputs_def
        split: prod.splits sum.splits if_splits projection.splits)

lemma sort_index_sample:
  assumes ix: "df_index df = [0 ..< length (df_rows df)]"
    and sm: "sample L df (NInt k) = Inr smp"
    and rg: "set (sample_positions L (length (df_rows df)) (nat k)) \<subseteq> {..< length (df_rows df)}"
  shows "df_rows (reset_index (sort_index smp))
           = map ((!) (df_rows df)) (sort (sample_positions L (length (df_rows df)) (nat k)))"
    and "df_columns (reset_index (sort_index smp)) = df_columns df"
    and "df_index (reset_index (sort_index smp))
           = [0 ..< length (sample_positions L (length (df_rows df)) (nat k))]"
proof -
  let ?ps = "sample_positions L (length (df_rows df)) (nat k)"
  have s: "smp = df\<lparr> df_index := map (\<lambda>j. df_index df ! j) ?ps,
                      df_rows := map (\<lambda>j. df_rows df ! j) ?ps \<rparr>"
    using sm by (auto simp: sample_def Let_def split: if_splits)
  have i: "map (\<lambda>j. df_index df ! j) ?ps = ?ps"
    using rg ix by (auto simp: map_idI subset_iff)
  have z: "zip (df_index smp) (df_rows smp) = map (\<lambda>j. (j, df_rows df ! j)) ?ps"
    using s i by (simp add: zip_same_map)
  have k: "sort_key fst (map (\<lambda>j. (j, df_rows df ! j)) ?ps)
             = map (\<lambda>j. (j, df_rows df ! j)) (sort ?ps)"
    by (simp add: sort_key_map)
  show "df_rows (reset_index (sort_index smp)) = map ((!) (df_rows df)) (sort ?ps)"
    by (simp add: reset_index_def sort_index_def Let_def z k comp_def)
  show "df_columns (reset_index (sort_index smp)) = df_columns df"
    by (simp add: reset_index_def sort_index_def Let_def s)
  show "df_index (reset_index (sort_index smp)) = [0 ..< length ?ps]"
    by (simp add: reset_index_def sort_index_def Let_def z k)
qed

lemma sample_loop_exact:
  assumes run: "sample_loop L C q start stop (NInt k) w = Some (Inr out, w')"
    and wf: "\<And>m. nat k \<le> m \<Longrightarrow>
               length (sample_positions L m (nat k)) = nat k
               \<and> distinct (sample_positions L m (nat k))
               \<and> set (sample_positions L m (nat k)) \<subseteq> {..< m}"
  shows "length (df_rows out) = nat k \<and> df_index out = [0 ..< nat k]
         \<and> (\<exists>df w1 js.
               the_dataframe (query L C q start stop ''dataframe'' ''datetime'' w1) = (Inr df, w')
               \<and> df_columns out = df_columns df
               \<and> length js = nat k \<and> sorted_wrt (<) js \<and> set js \<subseteq> {..< length (df_rows df)}
               \<and> df_rows out = map ((!) (df_rows df)) js)"
proof -
  from sample_loop_returns [OF run] obtain df w1 smp where
    q: "the_dataframe (query L C q start stop ''dataframe'' ''datetime'' w1) = (Inr df, w')"
    and le: "num_real (NInt k) \<le> real (length (df_rows df))"
    and sm: "sample L df (NInt k) = Inr smp"
    and out: "out = reset_index (sort_index smp)"
    by blast
  let ?m = "length (df_rows df)"
  let ?ps = "sample_positions L ?m (nat k)"
  have km: "nat k \<le> ?m" using le by (simp add: num_real_def)
  note w = wf [OF km]
  note ix = query_dataframe_index [OF q]
  note r = sort_index_sample [OF ix sm, of]
  have rg: "set ?ps \<subseteq> {..< ?m}" using w by simp
  have a: "df_rows out = map ((!) (df_rows df)) (sort ?ps)" using r(1) [OF rg] out by simp
  have b: "df_columns out = df_columns df" using r(2) [OF rg] out by simp
  have c: "df_index out = [0 ..< nat k]" using r(3) [OF rg] out w by simp
  have d: "sorted_wrt (<) (sort ?ps)" using w by (simp add: strict_sorted_iff)
  have e: "length (sort ?ps) = nat k" "set (sort ?ps) \<subseteq> {..< ?m}" using w by simp_all
  have f: "length (df_rows out) = nat k" using a e by simp
  show ?thesis using q a b c d e f by blast
qed

lemma randomSample_exact:
  assumes run: "randomSample L C q start stop (NInt k) w = Some (Inr out, w')"
    and cnt: "query L C (size_query q) start stop ''list'' ''datetime'' w = (Inr r, w1)"
    and fc: "first_cell r = Inr table_size"
    and nb: "number_of table_size = Some n"
    and lt: "of_int k < n"
    and wf: "\<And>m. nat k \<le> m \<Longrightarrow>
               length (sample_positions L m (nat k)) = nat k
               \<and> distinct (sample_positions L m (nat k))
               \<and> set (sample_positions L m (nat k)) \<subseteq> {..< m}"
  shows "0 < k \<and> length (df_rows out) = nat k \<and> df_index out = [0 ..< nat k]
         \<and> (\<exists>p df w2 js.
               find_optimal_p L n (of_int k) (fl L (99 / 100)) = Some p
               \<and> the_dataframe (query L C (sample_query L q p) start stop
                                   ''dataframe'' ''datetime'' w2) = (Inr df, w')
               \<and> df_columns out = df_columns df
               \<and> length js = nat k \<and> sorted_wrt (<) js \<and> set js \<subseteq> {..< length (df_rows df)}
               \<and> df_rows out = map ((!) (df_rows df)) js)"
proof -
  have pos: "0 < k"
    using run by (cases "0 < k") (auto simp: randomSample_def num_real_def)
  then have v: "\<not> (num_real (NInt k) < 1 \<or> \<not> is_int (NInt k))"
    by (simp add: num_real_def is_int_def)
  have ge: "\<not> n \<le> num_real (NInt k)" using lt by (simp add: num_real_def)
  from run v cnt fc nb ge obtain p where
    p: "find_optimal_p L n (of_int k) (fl L (99 / 100)) = Some p"
    and l: "sample_loop L C (sample_query L q p) start stop (NInt k) w1 = Some (Inr out, w')"
    by (auto simp: randomSample_def num_real_def split: option.splits)
  from sample_loop_exact [OF l wf] p pos show ?thesis by blast
qed

subsection \<open>The inclusion probability\<close>

text \<open>
  The search returns the first value, among \<open>p0\<close>, \<open>step_p p0\<close>,
  \<open>step_p (step_p p0)\<close>, ..., that passes the tail test.
\<close>

lemma search_p_first_aux:
  assumes "search_p L n k threshold x = Some y"
  shows "\<exists>j. y = (step_p L ^^ j) x \<and> tail_exceeds L n k threshold y
           \<and> (\<forall>i<j. \<not> tail_exceeds L n k threshold ((step_p L ^^ i) x))"
  using assms
proof (rule search_p.raw_induct [rotated 1])
  fix search_p' L n k threshold x y
  assume ih: "\<And>n k threshold p b y. search_p' n k threshold p b = Some y \<Longrightarrow>
                \<exists>j. y = (step_p n ^^ j) b \<and> tail_exceeds n k threshold p y
                  \<and> (\<forall>i<j. \<not> tail_exceeds n k threshold p ((step_p n ^^ i) b))"
    and body: "(if tail_exceeds L n k threshold x then Some x
                else search_p' L n k threshold (step_p L x)) = Some y"
  show "\<exists>j. y = (step_p L ^^ j) x \<and> tail_exceeds L n k threshold y
           \<and> (\<forall>i<j. \<not> tail_exceeds L n k threshold ((step_p L ^^ i) x))"
  proof (cases "tail_exceeds L n k threshold x")
    case True
    with body have "y = x" by simp
    with True show ?thesis by (intro exI [of _ 0]) simp
  next
    case False
    with body have "search_p' L n k threshold (step_p L x) = Some y" by simp
    from ih [OF this] obtain j where
      j: "y = (step_p L ^^ j) (step_p L x)" "tail_exceeds L n k threshold y"
         "\<forall>i<j. \<not> tail_exceeds L n k threshold ((step_p L ^^ i) (step_p L x))"
      by blast
    have "\<forall>i<Suc j. \<not> tail_exceeds L n k threshold ((step_p L ^^ i) x)"
    proof (intro allI impI)
      fix i assume "i < Suc j"
      show "\<not> tail_exceeds L n k threshold ((step_p L ^^ i) x)"
      proof (cases i)
        case 0 with False show ?thesis by simp
      next
        case (Suc i')
        with \<open>i < Suc j\<close> j(3) show ?thesis by (simp add: funpow_swap1)
      qed
    qed
    with j(1,2) show ?thesis by (intro exI [of _ "Suc j"]) (simp add: funpow_swap1)
  qed
qed

text \<open>
  A step never leaves a value above \<open>1\<close>. For a rounding function that is
  monotone, idempotent and keeps \<open>1\<close>, as rounding to the nearest float is, a
  step does not decrease a value between \<open>0\<close> and \<open>1\<close>, so the values tried
  form a non-decreasing sequence.
\<close>

lemma step_p_le_one: "step_p L x \<le> 1"
  by (simp add: step_p_def Let_def)

lemma step_p_grows:
  assumes mono: "\<And>a b. a \<le> b \<Longrightarrow> fl L a \<le> fl L b"
    and one: "fl L 1 = 1"
    and idem: "\<And>a. fl L (fl L a) = fl L a"
    and x: "0 \<le> x" "x \<le> 1" "fl L x = x"
  shows "x \<le> step_p L x" and "0 \<le> step_p L x" and "fl L (step_p L x) = step_p L x"
proof -
  let ?m = "fl L (fl L (1001 / 1000) * x)"
  have "fl L 1 \<le> fl L (1001 / 1000)" by (rule mono) simp
  then have c: "1 \<le> fl L (1001 / 1000)" by (simp only: one)
  have "1 * x \<le> fl L (1001 / 1000) * x" using c x(1) by (rule mult_right_mono)
  then have "x \<le> fl L (1001 / 1000) * x" by simp
  then have "fl L x \<le> ?m" by (rule mono)
  then have m: "x \<le> ?m" by (simp only: x(3))
  have s: "step_p L x = (if 1 < ?m then 1 else ?m)" by (simp add: step_p_def Let_def)
  show "x \<le> step_p L x" unfolding s using m x(2) by simp
  then show "0 \<le> step_p L x" using x(1) by linarith
  show "fl L (step_p L x) = step_p L x" unfolding s using one idem by simp
qed

lemma iterate_inv:
  assumes mono: "\<And>a b. a \<le> b \<Longrightarrow> fl L a \<le> fl L b"
    and one: "fl L 1 = 1"
    and idem: "\<And>a. fl L (fl L a) = fl L a"
    and x: "0 \<le> x" "x \<le> 1" "fl L x = x"
  shows "0 \<le> (step_p L ^^ i) x \<and> (step_p L ^^ i) x \<le> 1
         \<and> fl L ((step_p L ^^ i) x) = (step_p L ^^ i) x"
proof (induction i)
  case 0
  show ?case using x by simp
next
  case (Suc i)
  let ?y = "(step_p L ^^ i) x"
  from Suc have y: "0 \<le> ?y" "?y \<le> 1" "fl L ?y = ?y" by simp_all
  have "0 \<le> step_p L ?y" by (rule step_p_grows(2) [OF mono one idem y])
  moreover have "step_p L ?y \<le> 1" by (rule step_p_le_one)
  moreover have "fl L (step_p L ?y) = step_p L ?y" by (rule step_p_grows(3) [OF mono one idem y])
  ultimately show ?case by simp
qed

lemma iterate_mono:
  assumes mono: "\<And>a b. a \<le> b \<Longrightarrow> fl L a \<le> fl L b"
    and one: "fl L 1 = 1"
    and idem: "\<And>a. fl L (fl L a) = fl L a"
    and x: "0 \<le> x" "x \<le> 1" "fl L x = x"
    and ij: "i \<le> j"
  shows "(step_p L ^^ i) x \<le> (step_p L ^^ j) x"
proof -
  have st: "\<And>m. (step_p L ^^ m) x \<le> (step_p L ^^ Suc m) x"
  proof -
    fix m
    let ?y = "(step_p L ^^ m) x"
    have y: "0 \<le> ?y" "?y \<le> 1" "fl L ?y = ?y"
      using iterate_inv [OF mono one idem x, of m] by simp_all
    have "?y \<le> step_p L ?y" by (rule step_p_grows(1) [OF mono one idem y])
    then show "?y \<le> (step_p L ^^ Suc m) x" by simp
  qed
  show ?thesis by (rule lift_Suc_mono_le [of "\<lambda>m. (step_p L ^^ m) x", OF st ij])
qed

text \<open>
  What holds of a returned value. For \<open>0 < k < n\<close>, when \<open>_find_optimal_p\<close>
  returns \<open>p\<close>: the search started at \<open>k/n\<close> and \<open>p\<close> is reached from it by \<open>j\<close>
  steps \<open>min(1.001*p, 1)\<close>; no value tried exceeds \<open>1\<close>; the survival function at
  \<open>k - 0.5\<close> with mean \<open>n*p\<close> and standard deviation \<open>sqrt(n*p*(1-p))\<close> exceeds
  the threshold at \<open>p\<close>; none of the values tried before \<open>p\<close> passes that test,
  and \<open>p\<close> is the smallest of all reachable values that pass it. The rounding
  function is assumed monotone and idempotent with \<open>0\<close> and \<open>1\<close> representable.
\<close>

lemma find_optimal_p_first_sufficient:
  assumes ret: "find_optimal_p L n k threshold = Some p"
    and kn: "0 < k" "k < n"
    and mono: "\<And>a b. a \<le> b \<Longrightarrow> fl L a \<le> fl L b"
    and zero: "fl L 0 = 0"
    and one: "fl L 1 = 1"
    and idem: "\<And>a. fl L (fl L a) = fl L a"
  shows "\<exists>j. p = (step_p L ^^ j) (fl L (k / n))
           \<and> (\<forall>i. (step_p L ^^ i) (fl L (k / n)) \<le> 1)
           \<and> (\<exists>t. norm_sf L (fl L (fl L k - 1 / 2)) (fl L (fl L n * p))
                      (np_sqrt L (fl L (fl L (fl L n * p) * fl L (1 - p)))) = Some t
                  \<and> threshold < t)
           \<and> (\<forall>i<j. \<not> tail_exceeds L n k threshold ((step_p L ^^ i) (fl L (k / n))))
           \<and> (\<forall>i. tail_exceeds L n k threshold ((step_p L ^^ i) (fl L (k / n)))
                  \<longrightarrow> p \<le> (step_p L ^^ i) (fl L (k / n)))"
proof -
  let ?p0 = "fl L (k / n)"
  let ?it = "\<lambda>i. (step_p L ^^ i) ?p0"
  have "fl L 0 \<le> ?p0" by (rule mono) (use kn in simp)
  then have p0: "0 \<le> ?p0" by (simp only: zero)
  have "?p0 \<le> fl L 1" by (rule mono) (use kn in simp)
  then have p1: "?p0 \<le> 1" by (simp only: one)
  have pf: "fl L ?p0 = ?p0" by (rule idem)
  from ret have "search_p L n k threshold ?p0 = Some p" by (simp add: find_optimal_p_def)
  from search_p_first_aux [OF this] obtain j where
    j: "p = ?it j" "tail_exceeds L n k threshold p"
       "\<forall>i<j. \<not> tail_exceeds L n k threshold (?it i)"
    by blast
  have le1: "\<forall>i. ?it i \<le> 1"
    using iterate_inv [OF mono one idem p0 p1 pf] by blast
  have sf: "\<exists>t. norm_sf L (fl L (fl L k - 1 / 2)) (fl L (fl L n * p))
                      (np_sqrt L (fl L (fl L (fl L n * p) * fl L (1 - p)))) = Some t
                  \<and> threshold < t"
    using j(2) by (simp add: tail_exceeds_def loc_scale_def Let_def split: option.splits)
  have least: "\<forall>i. tail_exceeds L n k threshold (?it i) \<longrightarrow> p \<le> ?it i"
  proof (intro allI impI)
    fix i assume "tail_exceeds L n k threshold (?it i)"
    with j(3) have "j \<le> i" by (meson not_le)
    from iterate_mono [OF mono one idem p0 p1 pf this] show "p \<le> ?it i" by (simp only: j(1))
  qed
  from j(1) le1 sf j(3) least show ?thesis by blast
qed

lemma find_optimal_p_run: "find_optimal_p test_lib 3 2 (99 / 100) = Some (1001 / 1500)"
  unfolding find_optimal_p_def
  apply (subst search_p.simps)
  apply (simp add: tail_exceeds_def loc_scale_def step_p_def test_lib_def)
  apply (subst search_p.simps)
  apply (simp add: tail_exceeds_def loc_scale_def step_p_def test_lib_def)
  done

lemma find_optimal_p_first_sufficient_run:
  "find_optimal_p test_lib 3 2 (99 / 100) = Some (1001 / 1500)
   \<and> (0::real) < 2 \<and> (2::real) < 3
   \<and> fl test_lib 0 = 0 \<and> fl test_lib 1 = 1
   \<and> (\<exists>j. 1001 / 1500 = (step_p test_lib ^^ j) (fl test_lib (2 / 3))
         \<and> (\<forall>i. (step_p test_lib ^^ i) (fl test_lib (2 / 3)) \<le> 1)
         \<and> (\<exists>t. norm_sf test_lib (fl test_lib (fl test_lib 2 - 1 / 2))
                    (fl test_lib (fl test_lib 3 * (1001 / 1500)))
                    (np_sqrt test_lib (fl test_lib (fl test_lib (fl test_lib 3 * (1001 / 1500))
                                                   * fl test_lib (1 - 1001 / 1500)))) = Some t
                \<and> 99 / 100 < t)
         \<and> (\<forall>i<j. \<not> tail_exceeds test_lib 3 2 (99 / 100)
                         ((step_p test_lib ^^ i) (fl test_lib (2 / 3))))
         \<and> (\<forall>i. tail_exceeds test_lib 3 2 (99 / 100) ((step_p test_lib ^^ i) (fl test_lib (2 / 3)))
                \<longrightarrow> 1001 / 1500 \<le> (step_p test_lib ^^ i) (fl test_lib (2 / 3))))"
proof -
  have f: "\<And>a. fl test_lib a = a" by (simp add: test_lib_def)
  have m: "\<And>a b. a \<le> b \<Longrightarrow> fl test_lib a \<le> fl test_lib b" by (simp add: f)
  have i: "\<And>a. fl test_lib (fl test_lib a) = fl test_lib a" by (simp add: f)
  have k: "(0::real) < 2" "(2::real) < 3" by simp_all
  from find_optimal_p_first_sufficient [OF find_optimal_p_run k m f f i]
  show ?thesis using find_optimal_p_run f by simp
qed

text \<open>
  The search returns whenever some value reachable from \<open>k/n\<close> passes the
  tail test, and then with the first such value.
\<close>

lemma search_p_returns_first:
  assumes "tail_exceeds L n k threshold ((step_p L ^^ j) x)"
    and "\<forall>i<j. \<not> tail_exceeds L n k threshold ((step_p L ^^ i) x)"
  shows "search_p L n k threshold x = Some ((step_p L ^^ j) x)"
  using assms
proof (induction j arbitrary: x)
  case 0
  then show ?case by (subst search_p.simps) simp
next
  case (Suc j)
  from Suc.prems(2) have f: "\<not> tail_exceeds L n k threshold x" by (metis funpow_0 zero_less_Suc)
  have a: "tail_exceeds L n k threshold ((step_p L ^^ j) (step_p L x))"
    using Suc.prems(1) by (simp add: funpow_swap1)
  have b: "\<forall>i<j. \<not> tail_exceeds L n k threshold ((step_p L ^^ i) (step_p L x))"
  proof (intro allI impI)
    fix i assume "i < j"
    then have "\<not> tail_exceeds L n k threshold ((step_p L ^^ Suc i) x)"
      using Suc.prems(2) by (meson Suc_less_eq)
    then show "\<not> tail_exceeds L n k threshold ((step_p L ^^ i) (step_p L x))"
      by (simp add: funpow_swap1)
  qed
  have "search_p L n k threshold (step_p L x) = Some ((step_p L ^^ j) (step_p L x))"
    by (rule Suc.IH [OF a b])
  then show ?case using f by (subst search_p.simps) (simp add: funpow_swap1)
qed

lemma find_optimal_p_returns:
  assumes "tail_exceeds L n k threshold ((step_p L ^^ i) (fl L (k / n)))"
  shows "\<exists>j \<le> i. find_optimal_p L n k threshold = Some ((step_p L ^^ j) (fl L (k / n)))
           \<and> tail_exceeds L n k threshold ((step_p L ^^ j) (fl L (k / n)))
           \<and> (\<forall>m<j. \<not> tail_exceeds L n k threshold ((step_p L ^^ m) (fl L (k / n))))"
proof -
  let ?P = "\<lambda>j. tail_exceeds L n k threshold ((step_p L ^^ j) (fl L (k / n)))"
  let ?j = "LEAST j. ?P j"
  have p: "?P ?j" using assms by (rule LeastI)
  have l: "?j \<le> i" using assms by (rule Least_le)
  have m: "\<forall>m<?j. \<not> ?P m" using not_less_Least by blast
  have "search_p L n k threshold (fl L (k / n)) = Some ((step_p L ^^ ?j) (fl L (k / n)))"
    by (rule search_p_returns_first [OF p m])
  then show ?thesis using p l m unfolding find_optimal_p_def by blast
qed

text \<open>
  It returns in no other case: when no reachable value passes, the loop runs
  for ever. Once a step is capped, the value stays at \<open>1\<close>, where
  \<open>n*p*(1-p)\<close> is \<open>0\<close>; the standard deviation is then \<open>0\<close>, for which
  \<open>norm.sf\<close> answers nan, and nan exceeds no threshold.
\<close>

lemma search_p_none:
  assumes "\<forall>i. \<not> tail_exceeds L n k threshold ((step_p L ^^ i) x)"
  shows "search_p L n k threshold x = None"
proof (cases "search_p L n k threshold x")
  case None
  then show ?thesis .
next
  case (Some y)
  from search_p_first_aux [OF Some] assms show ?thesis by blast
qed

lemma step_p_one:
  assumes "1 \<le> fl L (fl L (1001 / 1000) * x)"
  shows "step_p L x = 1"
  using assms by (auto simp: step_p_def Let_def)

lemma step_p_fixes_one:
  assumes mono: "\<And>a b. a \<le> b \<Longrightarrow> fl L a \<le> fl L b"
    and one: "fl L 1 = 1"
  shows "step_p L 1 = 1"
proof -
  have "fl L 1 \<le> fl L (1001 / 1000)" by (rule mono) simp
  then have c: "1 \<le> fl L (1001 / 1000)" by (simp only: one)
  have "fl L 1 \<le> fl L (fl L (1001 / 1000) * 1)" by (rule mono) (use c in simp)
  then have "1 \<le> fl L (fl L (1001 / 1000) * 1)" by (simp only: one)
  then show ?thesis by (rule step_p_one)
qed

lemma tail_fails_at_one:
  assumes zero: "fl L 0 = 0"
    and sq: "np_sqrt L 0 = 0"
    and nan: "\<And>x loc. norm_sf L x loc 0 = None"
  shows "\<not> tail_exceeds L n k threshold 1"
  by (simp add: tail_exceeds_def loc_scale_def Let_def zero sq nan)

text \<open>
  Claim C1. For every \<open>0 < k < n\<close> the sampler should compute a probability
  \<open>p\<close>, reached from \<open>k/n\<close> by steps \<open>min(1.001*p, 1)\<close>, at which the tail
  probability exceeds the threshold. \<open>_find_optimal_p\<close> computes none when
  \<open>k/n\<close> fails the test and the first step is already capped at \<open>1\<close>, as for
  \<open>n = 1000000\<close> and \<open>k = 999999\<close>: every later value is \<open>1\<close>, the test fails
  there, and the loop never returns.
\<close>

theorem search_pinned_at_one_never_returns:
  assumes mono: "\<And>a b. a \<le> b \<Longrightarrow> fl L a \<le> fl L b"
    and zero: "fl L 0 = 0"
    and one: "fl L 1 = 1"
    and sq: "np_sqrt L 0 = 0"
    and nan: "\<And>x loc. norm_sf L x loc 0 = None"
    and kn: "0 < k" "k < n"
    and fails: "\<not> tail_exceeds L n k threshold (fl L (k / n))"
    and capped: "1 \<le> fl L (fl L (1001 / 1000) * fl L (k / n))"
  shows "find_optimal_p L n k threshold = None"
proof -
  let ?p0 = "fl L (k / n)"
  have s1: "step_p L ?p0 = 1" by (rule step_p_one [OF capped])
  have f1: "step_p L 1 = 1" by (rule step_p_fixes_one [OF mono one])
  have it1: "\<And>i. (step_p L ^^ i) 1 = 1"
  proof -
    fix i show "(step_p L ^^ i) 1 = 1" by (induction i) (simp_all add: f1)
  qed
  have t1: "\<not> tail_exceeds L n k threshold 1" by (rule tail_fails_at_one [OF zero sq nan])
  have "\<forall>i. \<not> tail_exceeds L n k threshold ((step_p L ^^ i) ?p0)"
  proof
    fix i
    show "\<not> tail_exceeds L n k threshold ((step_p L ^^ i) ?p0)"
    proof (cases i)
      case 0
      then show ?thesis using fails by simp
    next
      case (Suc m)
      have "(step_p L ^^ Suc m) ?p0 = (step_p L ^^ m) (step_p L ?p0)" by (simp add: funpow_swap1)
      then have "(step_p L ^^ Suc m) ?p0 = 1" by (simp only: s1 it1)
      then show ?thesis using Suc t1 by simp
    qed
  qed
  then show ?thesis unfolding find_optimal_p_def by (rule search_p_none)
qed

theorem search_pinned_at_one_never_returns_witness:
  "(0::real) < 1000 \<and> (1000::real) < 1001
   \<and> fl test_lib 0 = 0 \<and> fl test_lib 1 = 1 \<and> np_sqrt test_lib 0 = 0
   \<and> \<not> tail_exceeds test_lib 1001 1000 (99 / 100) (fl test_lib (1000 / 1001))
   \<and> 1 \<le> fl test_lib (fl test_lib (1001 / 1000) * fl test_lib (1000 / 1001))
   \<and> find_optimal_p test_lib 1001 1000 (99 / 100) = None"
proof -
  have f: "\<And>a. fl test_lib a = a" by (simp add: test_lib_def)
  have m: "\<And>a b. a \<le> b \<Longrightarrow> fl test_lib a \<le> fl test_lib b" by (simp add: f)
  have sq: "np_sqrt test_lib 0 = 0" by (simp add: test_lib_def)
  have nan: "\<And>x loc. norm_sf test_lib x loc 0 = None" by (simp add: test_lib_def)
  have k: "(0::real) < 1000" "(1000::real) < 1001" by simp_all
  have fails: "\<not> tail_exceeds test_lib 1001 1000 (99 / 100) (fl test_lib (1000 / 1001))"
    by (simp add: tail_exceeds_def loc_scale_def test_lib_def)
  have capped: "1 \<le> fl test_lib (fl test_lib (1001 / 1000) * fl test_lib (1000 / 1001))"
    by (simp add: f)
  from search_pinned_at_one_never_returns [OF m f f sq nan k fails capped]
  show ?thesis using f sq fails capped by simp
qed

end
